theory Spec2Isabelle
  imports Complex_Main
begin

section \<open>Python values\<close>

text \<open>
  The client of \<^verbatim>\<open>api_client.py\<close> stores and forwards whatever \<^verbatim>\<open>response.json()\<close>
  yields, so the values that flow through it are Python's images of JSON values:
  \<^verbatim>\<open>None\<close>, \<^verbatim>\<open>bool\<close>, \<^verbatim>\<open>int\<close>, \<^verbatim>\<open>float\<close>, \<^verbatim>\<open>str\<close>, \<^verbatim>\<open>list\<close> and \<^verbatim>\<open>dict\<close>
  (string keys, in insertion order). A float is kept only as far as the code looks at it
  (whether it is zero).
\<close>

datatype pyfloat = Finite rat | PosInf | NegInf | NaN

datatype json =
    JNull
  | JBool bool
  | JInt int
  | JFloat pyfloat
  | JStr string
  | JArr "json list"
  | JObj "(string \<times> json) list"

text \<open>Truth value testing, as \<^verbatim>\<open>if x:\<close> and \<^verbatim>\<open>x and y\<close> do it.\<close>

fun truthy :: "json \<Rightarrow> bool" where
  "truthy JNull = False"
| "truthy (JBool b) = b"
| "truthy (JInt n) = (n \<noteq> 0)"
| "truthy (JFloat (Finite r)) = (r \<noteq> 0)"
| "truthy (JFloat _) = True"
| "truthy (JStr s) = (s \<noteq> [])"
| "truthy (JArr xs) = (xs \<noteq> [])"
| "truthy (JObj kvs) = (kvs \<noteq> [])"

text \<open>Truth value of an \<^verbatim>\<open>Optional[str]\<close> and of an \<^verbatim>\<open>Optional[int]\<close> argument.\<close>

fun truthy_str :: "string option \<Rightarrow> bool" where
  "truthy_str None = False"
| "truthy_str (Some s) = (s \<noteq> [])"

fun truthy_int :: "int option \<Rightarrow> bool" where
  "truthy_int None = False"
| "truthy_int (Some n) = (n \<noteq> 0)"

section \<open>HTTP exchanges and exceptions\<close>

text \<open>
  A request as the code hands it to \<^verbatim>\<open>httpx\<close>: the verb, the URL, the headers passed
  explicitly, the \<^verbatim>\<open>json=\<close> and \<^verbatim>\<open>params=\<close> arguments, and the \<^verbatim>\<open>verify=\<close> setting of
  the \<^verbatim>\<open>AsyncClient\<close> that sends it.
\<close>

record http_request =
  req_method :: string
  req_url :: string
  req_headers :: "(string \<times> string) list"
  req_json :: "json option"
  req_params :: "json option"
  req_verify :: bool

text \<open>
  A response: its status code, its raw body, and what \<^verbatim>\<open>response.json()\<close> makes of the
  body (\<open>None\<close> when the body is not valid JSON; the parser itself is not modelled).
\<close>

record http_response =
  status_code :: int
  content :: string
  decoded :: "json option"

text \<open>
  The exceptions the client can raise. \<open>HTTPStatusError\<close> carries the request and the
  response, as \<^verbatim>\<open>httpx.HTTPStatusError\<close> does; \<open>TransportError\<close> stands for the
  \<^verbatim>\<open>httpx\<close> exceptions of a call that could not complete (connection refused, DNS,
  timeout) and carries the request.
\<close>

datatype error =
    HTTPStatusError http_request http_response
  | TransportError http_request
  | JSONDecodeError
  | KeyError string
  | TypeError
  | AttributeError
  | ValueError string

text \<open>What the network gives back for one call.\<close>

datatype net_result = Response http_response | Failed

text \<open>
  The world outside the client: the reading of the wall clock (\<^verbatim>\<open>datetime.now()\<close>, in
  microseconds) and the exchanges completed so far, oldest first, each with the clock
  reading at its completion. The clock is read as constant between two network calls of
  one operation; the range limit of \<^verbatim>\<open>datetime\<close> (years 1 to 9999) is not modelled.
\<close>

record exchange =
  ex_request :: http_request
  ex_result :: net_result
  ex_done :: int

record world =
  now :: int
  log :: "exchange list"

text \<open>
  Everything the code calls and this repository does not contain: the network, which
  answers a request (given the world at the moment it is sent) with a result and the clock
  reading at which the call completes; and Python's \<^verbatim>\<open>str()\<close> on floats, lists and dicts,
  whose text is not reproduced here.
\<close>

record runtime =
  transport :: "world \<Rightarrow> http_request \<Rightarrow> net_result \<times> int"
  str_other :: "json \<Rightarrow> string"

definition send :: "runtime \<Rightarrow> world \<Rightarrow> http_request \<Rightarrow> net_result \<times> world" where
  "send rt w rq =
     (case transport rt w rq of
        (r, t) \<Rightarrow> (r, \<lparr>now = t, log = log w @ [\<lparr>ex_request = rq, ex_result = r, ex_done = t\<rparr>]\<rparr>))"

text \<open>
  \<^verbatim>\<open>Response.raise_for_status()\<close> of \<^verbatim>\<open>httpx\<close>: it raises unless the status is a success
  status, 200 to 299.
\<close>

definition is_success :: "int \<Rightarrow> bool" where
  "is_success s = (200 \<le> s \<and> s \<le> 299)"

definition raise_for_status :: "http_request \<Rightarrow> http_response \<Rightarrow> error + unit" where
  "raise_for_status rq resp =
     (if is_success (status_code resp) then Inr () else Inl (HTTPStatusError rq resp))"

definition response_json :: "http_response \<Rightarrow> error + json" where
  "response_json resp = (case decoded resp of None \<Rightarrow> Inl JSONDecodeError | Some j \<Rightarrow> Inr j)"

text \<open>\<^verbatim>\<open>data[key]\<close> with a string key: only a dict can be subscripted so.\<close>

fun getitem :: "json \<Rightarrow> string \<Rightarrow> error + json" where
  "getitem (JObj kvs) k = (case map_of kvs k of None \<Rightarrow> Inl (KeyError k) | Some v \<Rightarrow> Inr v)"
| "getitem _ k = Inl TypeError"

text \<open>\<^verbatim>\<open>data.get(key, default)\<close>: only a dict has the method.\<close>

fun dict_get :: "json \<Rightarrow> string \<Rightarrow> json \<Rightarrow> error + json" where
  "dict_get (JObj kvs) k d = (case map_of kvs k of None \<Rightarrow> Inr d | Some v \<Rightarrow> Inr v)"
| "dict_get _ k d = Inl AttributeError"

section \<open>The client\<close>

record client =
  api_url :: string
  email :: string
  password :: string
  verify_ssl :: bool
  access_token :: json
  refresh_token :: json
  token_expires_at :: "int option"

definition minutes :: "int \<Rightarrow> int" where
  "minutes n = n * 60000000"

definition hours :: "int \<Rightarrow> int" where
  "hours n = n * 3600000000"

subsection \<open>\<^verbatim>\<open>_get_token\<close>\<close>

text \<open>
  The function has one suspension point, the \<^verbatim>\<open>await client.post(...)\<close>. Up to it, it
  decides between the held token and a login (\<open>get_token_check\<close>); after it, it handles
  the response and stores the new token (\<open>get_token_store\<close>). \<open>get_token\<close> is the
  function run without interruption.
\<close>

definition login_request :: "client \<Rightarrow> http_request" where
  "login_request c =
     \<lparr>req_method = ''POST'',
      req_url = api_url c @ ''/api/accounts/token/'',
      req_headers = [],
      req_json = Some (JObj [(''email'', JStr (email c)), (''password'', JStr (password c))]),
      req_params = None,
      req_verify = verify_ssl c\<rparr>"

datatype token_step = Reuse json | Login http_request

definition get_token_check :: "client \<Rightarrow> int \<Rightarrow> token_step" where
  "get_token_check c t =
     (if truthy (access_token c) then
        (case token_expires_at c of
           Some e \<Rightarrow>
             if t < e - minutes 5 then Reuse (access_token c) else Login (login_request c)
         | None \<Rightarrow> Login (login_request c))
      else Login (login_request c))"

definition get_token_store ::
  "client \<Rightarrow> http_request \<Rightarrow> net_result \<Rightarrow> int \<Rightarrow> (error + json) \<times> client" where
  "get_token_store c rq r t =
     (case r of
        Failed \<Rightarrow> (Inl (TransportError rq), c)
      | Response resp \<Rightarrow>
          (case raise_for_status rq resp of
             Inl e \<Rightarrow> (Inl e, c)
           | Inr _ \<Rightarrow>
               (case response_json resp of
                  Inl e \<Rightarrow> (Inl e, c)
                | Inr data \<Rightarrow>
                    (case getitem data ''access'' of
                       Inl e \<Rightarrow> (Inl e, c)
                     | Inr a \<Rightarrow>
                         (case dict_get data ''refresh'' JNull of
                            Inl e \<Rightarrow> (Inl e, c\<lparr>access_token := a\<rparr>)
                          | Inr rf \<Rightarrow>
                              (Inr a,
                               c\<lparr>access_token := a,
                                 refresh_token := rf,
                                 token_expires_at := Some (t + hours 1)\<rparr>))))))"

definition get_token :: "runtime \<Rightarrow> client \<Rightarrow> world \<Rightarrow> (error + json) \<times> client \<times> world" where
  "get_token rt c w =
     (case get_token_check c (now w) of
        Reuse a \<Rightarrow> (Inr a, c, w)
      | Login rq \<Rightarrow>
          (case send rt w rq of
             (r, w') \<Rightarrow>
               (case get_token_store c rq r (now w') of
                  (res, c') \<Rightarrow> (res, c', w'))))"

subsection \<open>\<^verbatim>\<open>_request\<close>\<close>

text \<open>Decimal text of an integer, as an f-string writes it.\<close>

definition digit :: "nat \<Rightarrow> char" where
  "digit d = ''0123456789'' ! d"

function str_nat :: "nat \<Rightarrow> string" where
  "str_nat n = (if n < 10 then [digit n] else str_nat (n div 10) @ [digit (n mod 10)])"
  by pat_completeness auto
termination
  by (relation "measure id") auto

declare str_nat.simps [simp del]

definition str_int :: "int \<Rightarrow> string" where
  "str_int i = (if i < 0 then CHR ''-'' # str_nat (nat (- i)) else str_nat (nat i))"

text \<open>
  \<^verbatim>\<open>str(x)\<close>, which is how an f-string renders \<^verbatim>\<open>{x}\<close>: a string is itself; floats, lists
  and dicts are left to the runtime.
\<close>

fun py_str :: "runtime \<Rightarrow> json \<Rightarrow> string" where
  "py_str rt (JStr s) = s"
| "py_str rt JNull = ''None''"
| "py_str rt (JBool b) = (if b then ''True'' else ''False'')"
| "py_str rt (JInt n) = str_int n"
| "py_str rt j = str_other rt j"

definition tracker_request ::
  "runtime \<Rightarrow> client \<Rightarrow> json \<Rightarrow> string \<Rightarrow> string \<Rightarrow> json option \<Rightarrow> json option \<Rightarrow> http_request" where
  "tracker_request rt c token method endpoint js params =
     \<lparr>req_method = method,
      req_url = api_url c @ ''/api/tracker/'' @ endpoint,
      req_headers = [(''Authorization'', ''Bearer '' @ py_str rt token)],
      req_json = js,
      req_params = params,
      req_verify = verify_ssl c\<rparr>"

definition request ::
  "runtime \<Rightarrow> client \<Rightarrow> world \<Rightarrow> string \<Rightarrow> string \<Rightarrow> json option \<Rightarrow> json option
     \<Rightarrow> (error + json) \<times> client \<times> world" where
  "request rt c w method endpoint js params =
     (case get_token rt c w of
        (Inl e, c', w') \<Rightarrow> (Inl e, c', w')
      | (Inr token, c', w') \<Rightarrow>
          (case send rt w' (tracker_request rt c' token method endpoint js params) of
             (Failed, w'') \<Rightarrow>
               (Inl (TransportError (tracker_request rt c' token method endpoint js params)),
                c', w'')
           | (Response resp, w'') \<Rightarrow>
               (case raise_for_status
                       (tracker_request rt c' token method endpoint js params) resp of
                  Inl e \<Rightarrow> (Inl e, c', w'')
                | Inr _ \<Rightarrow> (response_json resp, c', w''))))"

subsection \<open>The domain methods\<close>

text \<open>
  Each method awaits \<open>request\<close> and, unless it raised, returns an expression of the
  data; \<open>returning\<close> is that sequencing. Arguments with a default in the source are
  passed explicitly here.
\<close>

definition returning ::
  "(error + json) \<times> client \<times> world \<Rightarrow> (json \<Rightarrow> error + json)
     \<Rightarrow> (error + json) \<times> client \<times> world" where
  "returning r f =
     (case r of
        (Inl e, c, w) \<Rightarrow> (Inl e, c, w)
      | (Inr data, c, w) \<Rightarrow> (f data, c, w))"

text \<open>\<^verbatim>\<open>if v: payload[key] = v\<close> for an optional string and an optional integer.\<close>

definition item_if_str :: "string \<Rightarrow> string option \<Rightarrow> (string \<times> json) list" where
  "item_if_str k v = (case v of Some s \<Rightarrow> if truthy_str v then [(k, JStr s)] else [] | None \<Rightarrow> [])"

definition item_if_int :: "string \<Rightarrow> int option \<Rightarrow> (string \<times> json) list" where
  "item_if_int k v = (case v of Some n \<Rightarrow> if truthy_int v then [(k, JInt n)] else [] | None \<Rightarrow> [])"

definition list_projects :: "runtime \<Rightarrow> client \<Rightarrow> world \<Rightarrow> (error + json) \<times> client \<times> world" where
  "list_projects rt c w =
     returning (request rt c w ''GET'' ''projects/'' None None)
       (\<lambda>data. dict_get data ''projects'' (JArr []))"

definition get_project ::
  "runtime \<Rightarrow> client \<Rightarrow> world \<Rightarrow> int \<Rightarrow> (error + json) \<times> client \<times> world" where
  "get_project rt c w project_id =
     returning (request rt c w ''GET'' (''projects/'' @ str_int project_id @ ''/'') None None)
       (\<lambda>data. dict_get data ''project'' (JObj []))"

definition list_sprints ::
  "runtime \<Rightarrow> client \<Rightarrow> world \<Rightarrow> int \<Rightarrow> (error + json) \<times> client \<times> world" where
  "list_sprints rt c w project_id =
     returning
       (request rt c w ''GET'' (''projects/'' @ str_int project_id @ ''/sprints/'') None None)
       (\<lambda>data. dict_get data ''sprints'' (JArr []))"

definition get_sprint ::
  "runtime \<Rightarrow> client \<Rightarrow> world \<Rightarrow> int \<Rightarrow> (error + json) \<times> client \<times> world" where
  "get_sprint rt c w sprint_id =
     returning (request rt c w ''GET'' (''sprints/'' @ str_int sprint_id @ ''/'') None None)
       (\<lambda>data. dict_get data ''sprint'' (JObj []))"

definition create_sprint ::
  "runtime \<Rightarrow> client \<Rightarrow> world \<Rightarrow> int \<Rightarrow> string \<Rightarrow> string option \<Rightarrow> string option
     \<Rightarrow> string option \<Rightarrow> int option \<Rightarrow> (error + json) \<times> client \<times> world" where
  "create_sprint rt c w project_id name goal start_date end_date velocity_target =
     returning
       (request rt c w ''POST'' (''projects/'' @ str_int project_id @ ''/sprints/'')
          (Some (JObj ([(''name'', JStr name), (''status'', JStr ''planned'')]
                       @ item_if_str ''goal'' goal
                       @ item_if_str ''start_date'' start_date
                       @ item_if_str ''end_date'' end_date
                       @ item_if_int ''velocity_target'' velocity_target)))
          None)
       (\<lambda>data. dict_get data ''sprint'' (JObj []))"

definition activate_sprint ::
  "runtime \<Rightarrow> client \<Rightarrow> world \<Rightarrow> int \<Rightarrow> (error + json) \<times> client \<times> world" where
  "activate_sprint rt c w sprint_id =
     returning
       (request rt c w ''POST'' (''sprints/'' @ str_int sprint_id @ ''/activate/'') None None)
       (\<lambda>data. dict_get data ''sprint'' (JObj []))"

definition close_sprint ::
  "runtime \<Rightarrow> client \<Rightarrow> world \<Rightarrow> int \<Rightarrow> (error + json) \<times> client \<times> world" where
  "close_sprint rt c w sprint_id =
     returning
       (request rt c w ''POST'' (''sprints/'' @ str_int sprint_id @ ''/close/'') None None)
       (\<lambda>data. dict_get data ''sprint'' (JObj []))"

definition list_work_items ::
  "runtime \<Rightarrow> client \<Rightarrow> world \<Rightarrow> int \<Rightarrow> (error + json) \<times> client \<times> world" where
  "list_work_items rt c w project_id =
     returning
       (request rt c w ''GET'' (''projects/'' @ str_int project_id @ ''/work-items/'') None None)
       (\<lambda>data. dict_get data ''work_items'' (JArr []))"

definition get_work_item ::
  "runtime \<Rightarrow> client \<Rightarrow> world \<Rightarrow> int \<Rightarrow> (error + json) \<times> client \<times> world" where
  "get_work_item rt c w work_item_id =
     returning
       (request rt c w ''GET'' (''work-items/'' @ str_int work_item_id @ ''/'') None None)
       (\<lambda>data. dict_get data ''work_item'' (JObj []))"

definition create_work_item ::
  "runtime \<Rightarrow> client \<Rightarrow> world \<Rightarrow> int \<Rightarrow> string \<Rightarrow> string option \<Rightarrow> string \<Rightarrow> int
     \<Rightarrow> int option \<Rightarrow> int option \<Rightarrow> int option \<Rightarrow> int option
     \<Rightarrow> (error + json) \<times> client \<times> world" where
  "create_work_item rt c w project_id title description item_type priority
       estimate_points assignee_id sprint_id parent_id =
     returning
       (request rt c w ''POST'' (''projects/'' @ str_int project_id @ ''/work-items/'')
          (Some (JObj ([(''title'', JStr title), (''item_type'', JStr item_type),
                        (''priority'', JInt priority), (''status'', JStr ''todo'')]
                       @ item_if_str ''description'' description
                       @ item_if_int ''estimate_points'' estimate_points
                       @ item_if_int ''assignee_id'' assignee_id
                       @ item_if_int ''sprint_id'' sprint_id
                       @ item_if_int ''parent_id'' parent_id)))
          None)
       (\<lambda>data. dict_get data ''work_item'' (JObj []))"

definition update_work_item ::
  "runtime \<Rightarrow> client \<Rightarrow> world \<Rightarrow> int \<Rightarrow> (string \<times> json) list
     \<Rightarrow> (error + json) \<times> client \<times> world" where
  "update_work_item rt c w work_item_id kwargs =
     returning
       (request rt c w ''PATCH'' (''work-items/'' @ str_int work_item_id @ ''/'')
          (Some (JObj kwargs)) None)
       (\<lambda>data. dict_get data ''work_item'' (JObj []))"

definition get_backlog ::
  "runtime \<Rightarrow> client \<Rightarrow> world \<Rightarrow> int \<Rightarrow> (error + json) \<times> client \<times> world" where
  "get_backlog rt c w project_id =
     returning
       (request rt c w ''GET'' (''projects/'' @ str_int project_id @ ''/backlog/'') None None)
       (\<lambda>data. dict_get data ''work_items'' (JArr []))"

definition bulk_assign_to_sprint ::
  "runtime \<Rightarrow> client \<Rightarrow> world \<Rightarrow> int \<Rightarrow> int list \<Rightarrow> (error + json) \<times> client \<times> world" where
  "bulk_assign_to_sprint rt c w sprint_id work_item_ids =
     returning
       (request rt c w ''POST'' (''sprints/'' @ str_int sprint_id @ ''/bulk-assign/'')
          (Some (JObj [(''work_item_ids'', JArr (map JInt work_item_ids))])) None)
       Inr"

definition add_sprint_member ::
  "runtime \<Rightarrow> client \<Rightarrow> world \<Rightarrow> int \<Rightarrow> int \<Rightarrow> (error + json) \<times> client \<times> world" where
  "add_sprint_member rt c w sprint_id user_id =
     returning
       (request rt c w ''POST'' (''sprints/'' @ str_int sprint_id @ ''/members/'')
          (Some (JObj [(''user_id'', JInt user_id)])) None)
       Inr"

definition remove_sprint_member ::
  "runtime \<Rightarrow> client \<Rightarrow> world \<Rightarrow> int \<Rightarrow> int \<Rightarrow> (error + json) \<times> client \<times> world" where
  "remove_sprint_member rt c w sprint_id member_id =
     returning
       (request rt c w ''DELETE''
          (''sprints/'' @ str_int sprint_id @ ''/members/'' @ str_int member_id @ ''/'')
          None None)
       Inr"

subsection \<open>\<^verbatim>\<open>__init__\<close>\<close>

text \<open>
  The process environment is a map from names to values. \<open>py_lower\<close> is \<^verbatim>\<open>str.lower()\<close>
  on ASCII text: it maps \<^verbatim>\<open>A\<close> to \<^verbatim>\<open>Z\<close> to lower case and leaves every other character.
\<close>

definition py_lower :: "string \<Rightarrow> string" where
  "py_lower s =
     map (\<lambda>ch. case map_of (zip ''ABCDEFGHIJKLMNOPQRSTUVWXYZ'' ''abcdefghijklmnopqrstuvwxyz'') ch of
                Some l \<Rightarrow> l
              | None \<Rightarrow> ch) s"

definition getenv :: "(string \<rightharpoonup> string) \<Rightarrow> string \<Rightarrow> string \<Rightarrow> string" where
  "getenv environ k d = (case environ k of None \<Rightarrow> d | Some v \<Rightarrow> v)"

text \<open>\<^verbatim>\<open>a or b\<close> on optional strings.\<close>

definition or_else :: "string option \<Rightarrow> string option \<Rightarrow> string option" where
  "or_else a b = (if truthy_str a then a else b)"

definition init ::
  "(string \<rightharpoonup> string) \<Rightarrow> string option \<Rightarrow> string option \<Rightarrow> string option \<Rightarrow> bool
     \<Rightarrow> error + client" where
  "init environ api_url_arg email_arg password_arg verify_ssl_arg =
     (case (or_else api_url_arg (Some (getenv environ ''APIPORT_API_URL'' ''https://api.apiport.hu'')),
            or_else email_arg (environ ''APIPORT_EMAIL''),
            or_else password_arg (environ ''APIPORT_PASSWORD'')) of
        (Some u, Some e, Some p) \<Rightarrow>
          if e = [] \<or> p = []
          then Inl (ValueError ''APIPORT_EMAIL and APIPORT_PASSWORD must be set'')
          else Inr \<lparr>api_url = u, email = e, password = p,
                    verify_ssl =
                      (if verify_ssl_arg then verify_ssl_arg
                       else py_lower (getenv environ ''VERIFY_SSL'' ''true'') = ''true''),
                    access_token = JNull, refresh_token = JNull, token_expires_at = None\<rparr>
      | _ \<Rightarrow> Inl (ValueError ''APIPORT_EMAIL and APIPORT_PASSWORD must be set''))"

section \<open>Sequences of operations\<close>

text \<open>
  A client is used through a sequence of operations, each begun at some reading of the
  clock; \<open>run\<close> threads the client and the world through them, whatever each returns
  or raises.
\<close>

datatype op = Acquire | Dispatch string string "json option" "json option"

fun step :: "runtime \<Rightarrow> client \<times> world \<Rightarrow> int \<times> op \<Rightarrow> client \<times> world" where
  "step rt (c, w) (t, Acquire) =
     (case get_token rt c (w\<lparr>now := t\<rparr>) of (res, c', w') \<Rightarrow> (c', w'))"
| "step rt (c, w) (t, Dispatch method endpoint js params) =
     (case request rt c (w\<lparr>now := t\<rparr>) method endpoint js params of (res, c', w') \<Rightarrow> (c', w'))"

definition run :: "runtime \<Rightarrow> client \<times> world \<Rightarrow> (int \<times> op) list \<Rightarrow> client \<times> world" where
  "run rt cw ops = foldl (step rt) cw ops"

section \<open>Concurrent calls of \<^verbatim>\<open>_get_token\<close>\<close>

text \<open>
  Coroutines on one event loop run until they suspend. A call of \<^verbatim>\<open>_get_token\<close> is
  \<open>Pending\<close> before it has run, \<open>Waiting\<close> for the response of the login it has sent, or
  \<open>Done\<close> with its result. \<open>Start i t\<close> runs call \<open>i\<close> from its beginning, at clock
  reading \<open>t\<close>, up to its suspension point or its return; \<open>Deliver i t r\<close> hands call
  \<open>i\<close> the result \<open>r\<close> of its login at clock reading \<open>t\<close> and runs it to its end.
  All calls share the one client; \<open>sent\<close> lists the requests issued.
\<close>

datatype task = Pending | Waiting http_request | Done "error + json"

datatype event = Start nat int | Deliver nat int net_result

record config =
  shared :: client
  tasks :: "task list"
  sent :: "http_request list"

fun resume :: "config \<Rightarrow> event \<Rightarrow> config" where
  "resume cfg (Start i t) =
     (if i < length (tasks cfg) then
        (case tasks cfg ! i of
           Pending \<Rightarrow>
             (case get_token_check (shared cfg) t of
                Reuse a \<Rightarrow> cfg\<lparr>tasks := (tasks cfg)[i := Done (Inr a)]\<rparr>
              | Login rq \<Rightarrow> cfg\<lparr>tasks := (tasks cfg)[i := Waiting rq], sent := sent cfg @ [rq]\<rparr>)
         | _ \<Rightarrow> cfg)
      else cfg)"
| "resume cfg (Deliver i t r) =
     (if i < length (tasks cfg) then
        (case tasks cfg ! i of
           Waiting rq \<Rightarrow>
             (case get_token_store (shared cfg) rq r t of
                (res, c') \<Rightarrow> cfg\<lparr>shared := c', tasks := (tasks cfg)[i := Done res]\<rparr>)
         | _ \<Rightarrow> cfg)
      else cfg)"

definition gather :: "client \<Rightarrow> nat \<Rightarrow> config" where
  "gather c n = \<lparr>shared = c, tasks = replicate n Pending, sent = []\<rparr>"

definition schedule :: "config \<Rightarrow> event list \<Rightarrow> config" where
  "schedule cfg evs = foldl resume cfg evs"

text \<open>
  All \<open>n\<close> calls started, in order, at the clock readings \<open>ts\<close>; and the responses
  \<open>ds\<close> delivered, each entry \<open>(i, t, r)\<close> to call \<open>i\<close>.
\<close>

definition starts :: "int list \<Rightarrow> event list" where
  "starts ts = map (\<lambda>(i, t). Start i t) (zip [0..<length ts] ts)"

definition deliveries :: "(nat \<times> int \<times> net_result) list \<Rightarrow> event list" where
  "deliveries ds = map (\<lambda>(i, t, r). Deliver i t r) ds"

section \<open>The credential and the login that minted it\<close>

text \<open>
  \<open>minted_by c x\<close>: the exchange \<open>x\<close> is a login of the client \<open>c\<close> whose response
  succeeded and carried the access token \<open>c\<close> holds.
\<close>

definition minted_by :: "client \<Rightarrow> exchange \<Rightarrow> bool" where
  "minted_by c x =
     (ex_request x = login_request c \<and>
      (case ex_result x of
         Failed \<Rightarrow> False
       | Response resp \<Rightarrow>
           is_success (status_code resp) \<and>
           (case decoded resp of
              Some (JObj kvs) \<Rightarrow> map_of kvs ''access'' = Some (access_token c)
            | _ \<Rightarrow> False)))"

text \<open>
  The invariant of the credential state: a held access token comes from a login in the log,
  and the expiry instant is the instant that login completed, when the token was stored,
  plus one hour.
\<close>

definition credential_inv :: "client \<Rightarrow> world \<Rightarrow> bool" where
  "credential_inv c w =
     (truthy (access_token c) \<longrightarrow>
        (\<exists>x \<in> set (log w). minted_by c x \<and> token_expires_at c = Some (ex_done x + hours 1)))"

section \<open>Responses without the expected field\<close>

text \<open>
  \<open>lacks_field w k\<close>: the last exchange of the world \<open>w\<close> ended in a response with a
  success status whose body is a JSON object without the key \<open>k\<close>.
\<close>

definition lacks_field :: "world \<Rightarrow> string \<Rightarrow> bool" where
  "lacks_field w k =
     (case rev (log w) of
        [] \<Rightarrow> False
      | x # _ \<Rightarrow>
          (case ex_result x of
             Failed \<Rightarrow> False
           | Response resp \<Rightarrow>
               is_success (status_code resp) \<and>
               (case decoded resp of
                  Some (JObj kvs) \<Rightarrow> map_of kvs k = None
                | _ \<Rightarrow> False)))"

section \<open>A concrete service\<close>

text \<open>
  A client for the identity \<^verbatim>\<open>a@b.com\<close> / \<^verbatim>\<open>secret\<close>, and a service that answers the
  login with the token \<^verbatim>\<open>T1\<close>, the project list with one project, and every other call
  with 404; each call takes one tick of the clock. They are the inputs at which the
  theorems below are instantiated.
\<close>

definition quoted :: "string \<Rightarrow> string" where
  "quoted s = CHR 0x22 # s @ [CHR 0x22]"

definition example_client :: client where
  "example_client =
     \<lparr>api_url = ''https://api.apiport.hu'', email = ''a@b.com'', password = ''secret'',
      verify_ssl = True, access_token = JNull, refresh_token = JNull,
      token_expires_at = None\<rparr>"

definition login_body :: http_response where
  "login_body =
     \<lparr>status_code = 200,
      content = ''{'' @ quoted ''access'' @ '': '' @ quoted ''T1'' @ ''}'',
      decoded = Some (JObj [(''access'', JStr ''T1'')])\<rparr>"

definition projects_body :: http_response where
  "projects_body =
     \<lparr>status_code = 200,
      content = ''{'' @ quoted ''projects'' @ '': [{'' @ quoted ''id'' @ '': 1, ''
                @ quoted ''name'' @ '': '' @ quoted ''X'' @ '', ''
                @ quoted ''status'' @ '': '' @ quoted ''active'' @ ''}]}'',
      decoded = Some (JObj [(''projects'',
                  JArr [JObj [(''id'', JInt 1), (''name'', JStr ''X''),
                              (''status'', JStr ''active'')]])])\<rparr>"

definition not_found :: http_response where
  "not_found = \<lparr>status_code = 404, content = ''Not Found'', decoded = None\<rparr>"

definition example_transport :: "world \<Rightarrow> http_request \<Rightarrow> net_result \<times> int" where
  "example_transport w rq =
     (if req_url rq = ''https://api.apiport.hu/api/accounts/token/''
      then (Response login_body, now w + 1)
      else if req_url rq = ''https://api.apiport.hu/api/tracker/projects/''
      then (Response projects_body, now w + 1)
      else (Response not_found, now w + 1))"

definition example_runtime :: runtime where
  "example_runtime = \<lparr>transport = example_transport, str_other = (\<lambda>j. [])\<rparr>"

definition unauthorized :: http_response where
  "unauthorized = \<lparr>status_code = 401, content = ''Unauthorized'', decoded = None\<rparr>"

definition empty_object :: http_response where
  "empty_object = \<lparr>status_code = 200, content = ''{}'', decoded = Some (JObj [])\<rparr>"

definition rejecting_runtime :: runtime where
  "rejecting_runtime =
     \<lparr>transport = (\<lambda>w rq. (Response unauthorized, now w + 1)), str_other = (\<lambda>j. [])\<rparr>"

definition bare_runtime :: runtime where
  "bare_runtime =
     \<lparr>transport = (\<lambda>w rq. (Response empty_object, now w + 1)), str_other = (\<lambda>j. [])\<rparr>"

definition no_content :: http_response where
  "no_content = \<lparr>status_code = 204, content = [], decoded = None\<rparr>"

definition silent_runtime :: runtime where
  "silent_runtime =
     \<lparr>transport = (\<lambda>w rq. (Response no_content, now w + 1)), str_other = (\<lambda>j. [])\<rparr>"

definition offline_runtime :: runtime where
  "offline_runtime = \<lparr>transport = (\<lambda>w rq. (Failed, now w + 1)), str_other = (\<lambda>j. [])\<rparr>"

definition start :: world where
  "start = \<lparr>now = 0, log = []\<rparr>"

definition held_client :: client where
  "held_client =
     example_client\<lparr>access_token := JStr ''T0'', token_expires_at := Some (hours 1)\<rparr>"

definition later :: world where
  "later = \<lparr>now = hours 1, log = []\<rparr>"

definition second_login_body :: http_response where
  "second_login_body =
     \<lparr>status_code = 200,
      content = ''{'' @ quoted ''access'' @ '': '' @ quoted ''T2'' @ ''}'',
      decoded = Some (JObj [(''access'', JStr ''T2'')])\<rparr>"

text \<open>
  Two schedules of concurrent calls on the fresh client: three calls started together, of
  which two have had their responses, and two calls started together and both answered.
\<close>

definition three_calls :: config where
  "three_calls =
     schedule (gather example_client (length [0, 0, 0 :: int]))
       (starts [0, 0, 0] @
        deliveries [(1, 5, Response login_body), (0, 6, Response second_login_body)])"

definition two_calls :: config where
  "two_calls =
     schedule (gather example_client 2)
       [Start 0 0, Start 1 0,
        Deliver 0 1 (Response login_body), Deliver 1 2 (Response second_login_body)]"

section \<open>Basic facts\<close>

lemma get_token_check_login:
  assumes "\<not> truthy (access_token c) \<or>
           (case token_expires_at c of None \<Rightarrow> True | Some e \<Rightarrow> e \<le> t + minutes 5)"
  shows "get_token_check c t = Login (login_request c)"
  using assms by (auto simp: get_token_check_def split: option.splits)

lemma get_token_login_unfold:
  assumes "get_token_check c (now w) = Login rq"
    and "transport rt w rq = (r, t)"
  shows "get_token rt c w =
           (fst (get_token_store c rq r t), snd (get_token_store c rq r t),
            \<lparr>now = t, log = log w @ [\<lparr>ex_request = rq, ex_result = r, ex_done = t\<rparr>]\<rparr>)"
  using assms by (simp add: get_token_def send_def split: prod.splits)

lemma get_token_store_ok:
  assumes "is_success (status_code resp)"
    and "decoded resp = Some (JObj kvs)"
    and "map_of kvs ''access'' = Some a"
  shows "get_token_store c rq (Response resp) t =
           (Inr a,
            c\<lparr>access_token := a,
              refresh_token := (case map_of kvs ''refresh'' of None \<Rightarrow> JNull | Some v \<Rightarrow> v),
              token_expires_at := Some (t + hours 1)\<rparr>)"
  using assms
  by (simp add: get_token_store_def raise_for_status_def response_json_def split: option.splits)

lemma get_token_store_error:
  assumes "get_token_store c rq r t = (Inl e, c')"
  shows "c' = c"
proof (cases r)
  case Failed
  with assms show ?thesis by (simp add: get_token_store_def)
next
  case (Response resp)
  show ?thesis
  proof (cases "raise_for_status rq resp")
    case (Inl e1)
    with assms Response show ?thesis by (simp add: get_token_store_def)
  next
    case ok: (Inr u)
    show ?thesis
    proof (cases "response_json resp")
      case (Inl e2)
      with assms Response ok show ?thesis by (simp add: get_token_store_def)
    next
      case (Inr data)
      show ?thesis
      proof (cases data)
        case (JObj kvs)
        with assms Response ok Inr show ?thesis
          by (simp add: get_token_store_def split: option.splits)
      qed (use assms Response ok Inr in \<open>simp_all add: get_token_store_def\<close>)
    qed
  qed
qed

lemma get_token_store_identity:
  "api_url (snd (get_token_store c rq r t)) = api_url c
   \<and> email (snd (get_token_store c rq r t)) = email c
   \<and> password (snd (get_token_store c rq r t)) = password c
   \<and> verify_ssl (snd (get_token_store c rq r t)) = verify_ssl c"
  by (simp add: get_token_store_def split: net_result.splits sum.splits)

lemma get_token_cases:
  obtains (reuse) a where "get_token_check c (now w) = Reuse a" "get_token rt c w = (Inr a, c, w)"
  | (login) r t where "get_token_check c (now w) = Login (login_request c)"
      "transport rt w (login_request c) = (r, t)"
      "get_token rt c w =
         (fst (get_token_store c (login_request c) r t),
          snd (get_token_store c (login_request c) r t),
          \<lparr>now = t,
           log = log w @ [\<lparr>ex_request = login_request c, ex_result = r, ex_done = t\<rparr>]\<rparr>)"
proof (cases "get_token_check c (now w)")
  case (Reuse a)
  then have "get_token rt c w = (Inr a, c, w)"
    by (simp add: get_token_def)
  with Reuse show ?thesis by (rule reuse)
next
  case (Login rq)
  then have rq: "rq = login_request c"
    by (simp add: get_token_check_def split: if_splits option.splits)
  obtain r t where tr: "transport rt w (login_request c) = (r, t)"
    by (cases "transport rt w (login_request c)")
  from Login rq have chk: "get_token_check c (now w) = Login (login_request c)"
    by simp
  from chk tr get_token_login_unfold [OF chk tr] show ?thesis
    by (rule login)
qed

lemma get_token_identity:
  assumes "get_token rt c w = (res, c', w')"
  shows "api_url c' = api_url c \<and> verify_ssl c' = verify_ssl c
         \<and> email c' = email c \<and> password c' = password c"
proof (cases rule: get_token_cases [of c w rt])
  case (reuse a)
  with assms show ?thesis by simp
next
  case (login r t)
  with assms have "c' = snd (get_token_store c (login_request c) r t)"
    by simp
  then show ?thesis
    by (simp add: get_token_store_identity)
qed

lemma get_token_error_state:
  assumes "get_token rt c w = (Inl e, c', w')"
  shows "c' = c"
proof (cases rule: get_token_cases [of c w rt])
  case (reuse a)
  with assms show ?thesis by simp
next
  case (login r t)
  with assms have "get_token_store c (login_request c) r t = (Inl e, c')"
    by (simp add: prod_eq_iff)
  then show ?thesis by (rule get_token_store_error)
qed

lemma get_token_store_rejected:
  assumes "\<not> is_success (status_code resp)
           \<or> (\<exists>kvs. decoded resp = Some (JObj kvs) \<and> map_of kvs ''access'' = None)"
  shows "get_token_store c rq (Response resp) t =
           (Inl (if is_success (status_code resp) then KeyError ''access''
                 else HTTPStatusError rq resp), c)"
  using assms
  by (auto simp: get_token_store_def raise_for_status_def response_json_def)

lemma request_after_token:
  assumes "get_token rt c w = (Inr token, c1, w1)"
    and "transport rt w1 (tracker_request rt c1 token method endpoint js params) = (r, t)"
  shows "request rt c w method endpoint js params =
           (case r of
              Failed \<Rightarrow> Inl (TransportError (tracker_request rt c1 token method endpoint js params))
            | Response resp \<Rightarrow>
                (case raise_for_status (tracker_request rt c1 token method endpoint js params) resp of
                   Inl e \<Rightarrow> Inl e
                 | Inr u \<Rightarrow> response_json resp),
            c1,
            \<lparr>now = t,
             log = log w1 @ [\<lparr>ex_request = tracker_request rt c1 token method endpoint js params,
                              ex_result = r, ex_done = t\<rparr>]\<rparr>)"
  using assms
  by (simp add: request_def send_def split: net_result.splits sum.splits)

lemma request_token_error:
  assumes "get_token rt c w = (Inl e, c1, w1)"
  shows "request rt c w method endpoint js params = (Inl e, c1, w1)"
  using assms by (simp add: request_def)

lemma get_token_store_success:
  assumes "get_token_store c rq r t = (Inr a, c')"
  shows "\<exists>resp kvs. r = Response resp \<and> is_success (status_code resp)
           \<and> decoded resp = Some (JObj kvs) \<and> map_of kvs ''access'' = Some a
           \<and> c' = c\<lparr>access_token := a,
                     refresh_token := (case map_of kvs ''refresh'' of None \<Rightarrow> JNull | Some v \<Rightarrow> v),
                     token_expires_at := Some (t + hours 1)\<rparr>"
proof (cases r)
  case Failed
  with assms show ?thesis by (simp add: get_token_store_def)
next
  case (Response resp)
  show ?thesis
  proof (cases "is_success (status_code resp)")
    case False
    with assms Response show ?thesis
      by (simp add: get_token_store_def raise_for_status_def)
  next
    case True
    show ?thesis
    proof (cases "decoded resp")
      case None
      with assms Response True show ?thesis
        by (simp add: get_token_store_def raise_for_status_def response_json_def)
    next
      case (Some data)
      show ?thesis
      proof (cases data)
        case (JObj kvs)
        with assms Response True Some show ?thesis
          by (auto simp: get_token_store_def raise_for_status_def response_json_def
              split: option.splits)
      qed (use assms Response True Some in
            \<open>simp_all add: get_token_store_def raise_for_status_def response_json_def\<close>)
    qed
  qed
qed

lemma credential_inv_log:
  assumes "credential_inv c w" and "set (log w) \<subseteq> set (log w')"
  shows "credential_inv c w'"
  using assms unfolding credential_inv_def by blast

lemma get_token_inv:
  assumes inv: "credential_inv c w"
    and run: "get_token rt c w = (res, c', w')"
  shows "credential_inv c' w'"
proof (cases rule: get_token_cases [of c w rt])
  case (reuse a)
  with inv run show ?thesis by simp
next
  case (login r t)
  let ?x = "\<lparr>ex_request = login_request c, ex_result = r, ex_done = t\<rparr>"
  from login run have w': "w' = \<lparr>now = t, log = log w @ [?x]\<rparr>"
    and st: "get_token_store c (login_request c) r t = (res, c')"
    by (simp_all add: prod_eq_iff)
  show ?thesis
  proof (cases res)
    case (Inl e)
    with st have "c' = c" by (simp add: get_token_store_error)
    with inv w' show ?thesis
      by (auto intro: credential_inv_log)
  next
    case (Inr a)
    with st obtain resp kvs where ok: "r = Response resp" "is_success (status_code resp)"
      "decoded resp = Some (JObj kvs)" "map_of kvs ''access'' = Some a"
      and c': "c' = c\<lparr>access_token := a,
                     refresh_token := (case map_of kvs ''refresh'' of None \<Rightarrow> JNull | Some v \<Rightarrow> v),
                     token_expires_at := Some (t + hours 1)\<rparr>"
      using get_token_store_success by blast
    from c' have "login_request c' = login_request c"
      by (simp add: login_request_def)
    with ok c' have "minted_by c' ?x \<and> token_expires_at c' = Some (ex_done ?x + hours 1)"
      by (simp add: minted_by_def)
    with w' show ?thesis
      unfolding credential_inv_def by auto
  qed
qed

lemma request_inv:
  assumes inv: "credential_inv c w"
    and run: "request rt c w method endpoint js params = (res, c', w')"
  shows "credential_inv c' w'"
proof -
  obtain tok c1 w1 where g: "get_token rt c w = (tok, c1, w1)"
    by (cases "get_token rt c w")
  from get_token_inv [OF inv g] have inv1: "credential_inv c1 w1" .
  show ?thesis
  proof (cases tok)
    case (Inl e)
    with g run inv1 show ?thesis
      by (simp add: request_token_error)
  next
    case (Inr token)
    obtain r t where tr:
      "transport rt w1 (tracker_request rt c1 token method endpoint js params) = (r, t)"
      by (cases "transport rt w1 (tracker_request rt c1 token method endpoint js params)")
    from g Inr have "get_token rt c w = (Inr token, c1, w1)" by simp
    from request_after_token [OF this tr] run
    have "c' = c1" and "set (log w1) \<subseteq> set (log w')"
      by auto
    with inv1 show ?thesis
      by (auto intro: credential_inv_log)
  qed
qed

lemma credential_inv_now:
  "credential_inv c (w\<lparr>now := t\<rparr>) = credential_inv c w"
  by (simp add: credential_inv_def)

lemma step_inv:
  assumes "credential_inv c w" and "step rt (c, w) ev = (c', w')"
  shows "credential_inv c' w'"
proof (cases ev)
  case (Pair t o')
  show ?thesis
  proof (cases o')
    case Acquire
    with Pair assms show ?thesis
      by (auto split: prod.splits dest!: get_token_inv [rotated] simp: credential_inv_now)
  next
    case (Dispatch m s js ps)
    with Pair assms show ?thesis
      by (auto split: prod.splits dest!: request_inv [rotated] simp: credential_inv_now)
  qed
qed

lemma run_inv:
  assumes "credential_inv c w" and "run rt (c, w) ops = (c', w')"
  shows "credential_inv c' w'"
  using assms
proof (induction ops arbitrary: c w)
  case Nil
  then show ?case by (simp add: run_def)
next
  case (Cons ev ops)
  obtain c1 w1 where s: "step rt (c, w) ev = (c1, w1)"
    by (cases "step rt (c, w) ev")
  from step_inv [OF Cons.prems(1) s] have "credential_inv c1 w1" .
  moreover from Cons.prems(2) s have "run rt (c1, w1) ops = (c', w')"
    by (simp add: run_def)
  ultimately show ?case by (rule Cons.IH)
qed

lemma init_fresh:
  assumes "init environ u e p v = Inr c"
  shows "access_token c = JNull \<and> refresh_token c = JNull \<and> token_expires_at c = None"
  using assms by (auto simp: init_def split: option.splits if_splits)

lemma lacks_field_last:
  "lacks_field \<lparr>now = t, log = xs @ [\<lparr>ex_request = rq, ex_result = r, ex_done = d\<rparr>]\<rparr> k =
     (case r of
        Failed \<Rightarrow> False
      | Response resp \<Rightarrow>
          is_success (status_code resp) \<and>
          (case decoded resp of Some (JObj kvs) \<Rightarrow> map_of kvs k = None | _ \<Rightarrow> False))"
  by (simp add: lacks_field_def)

lemma returning_world:
  "snd (snd (returning r f)) = snd (snd r)"
  by (simp add: returning_def split: prod.splits sum.splits)

lemma returning_default:
  assumes tok: "fst (get_token rt c w) = Inr token"
    and lack: "lacks_field (snd (snd (request rt c w method endpoint js params))) k"
  shows "fst (returning (request rt c w method endpoint js params) (\<lambda>data. dict_get data k d))
           = Inr d"
proof -
  obtain c1 w1 where g: "get_token rt c w = (Inr token, c1, w1)"
    using tok by (cases "get_token rt c w") auto
  obtain r t where tr:
    "transport rt w1 (tracker_request rt c1 token method endpoint js params) = (r, t)"
    by (cases "transport rt w1 (tracker_request rt c1 token method endpoint js params)")
  note rq = request_after_token [OF g tr]
  from lack obtain resp kvs where ok: "r = Response resp" "is_success (status_code resp)"
    "decoded resp = Some (JObj kvs)" "map_of kvs k = None"
    by (auto simp: rq lacks_field_last split: net_result.splits option.splits json.splits)
  then show ?thesis
    by (simp add: rq returning_def raise_for_status_def response_json_def)
qed

lemmas method_defs =
  returning_def list_projects_def get_project_def list_sprints_def get_sprint_def
  create_sprint_def activate_sprint_def close_sprint_def list_work_items_def
  get_work_item_def create_work_item_def update_work_item_def get_backlog_def
  item_if_str_def item_if_int_def str_int_def str_nat.simps digit_def

lemma starts_from:
  assumes "\<forall>t \<in> set ts. get_token_check c t = Login rq"
  shows "foldl resume
           \<lparr>shared = c, tasks = replicate k (Waiting rq) @ replicate (length ts) Pending, sent = s\<rparr>
           (map (\<lambda>(i, t). Start i t) (zip [k..<k + length ts] ts))
         = \<lparr>shared = c, tasks = replicate (k + length ts) (Waiting rq),
            sent = s @ replicate (length ts) rq\<rparr>"
  using assms
proof (induction ts arbitrary: k s)
  case Nil
  then show ?case by simp
next
  case (Cons t ts)
  have idx: "[k..<k + length (t # ts)] = k # [Suc k..<Suc k + length ts]"
    by (subst upt_rec) simp
  have upd: "(replicate k (Waiting rq) @ replicate (length (t # ts)) Pending)[k := Waiting rq]
             = replicate (Suc k) (Waiting rq) @ replicate (length ts) Pending"
    by (simp add: list_update_append replicate_append_same)
  have nth: "(replicate k (Waiting rq) @ replicate (length (t # ts)) Pending) ! k = Pending"
    by (simp add: nth_append)
  from Cons.prems have chk: "get_token_check c t = Login rq"
    and rest: "\<forall>t \<in> set ts. get_token_check c t = Login rq"
    by simp_all
  have one: "resume
            \<lparr>shared = c, tasks = replicate k (Waiting rq) @ replicate (length (t # ts)) Pending,
             sent = s\<rparr> (Start k t)
          = \<lparr>shared = c, tasks = replicate (Suc k) (Waiting rq) @ replicate (length ts) Pending,
             sent = s @ [rq]\<rparr>"
    using nth upd chk by simp
  show ?case
    unfolding idx
    using Cons.IH [OF rest, of "Suc k" "s @ [rq]"] one
    by (simp add: replicate_append_same)
qed

lemma schedule_starts:
  assumes "\<forall>t \<in> set ts. get_token_check c t = Login rq"
  shows "schedule (gather c (length ts)) (starts ts)
         = \<lparr>shared = c, tasks = replicate (length ts) (Waiting rq),
            sent = replicate (length ts) rq\<rparr>"
  using starts_from [OF assms, of 0 "[]"]
  by (simp add: schedule_def gather_def starts_def)

lemma get_token_store_result:
  "fst (get_token_store c rq r t) = fst (get_token_store c' rq r t)"
  by (simp add: get_token_store_def split: net_result.splits sum.splits)

lemma map_upt_update:
  assumes "i < n"
  shows "(map g [0..<n])[i := v] = map (g(i := v)) [0..<n]"
  using assms by (intro nth_equalityI) (auto simp: nth_list_update)

lemma schedule_deliveries:
  "\<exists>c'. schedule \<lparr>shared = c, tasks = replicate n (Waiting rq), sent = s\<rparr> (deliveries ds)
        = \<lparr>shared = c',
           tasks = map (\<lambda>i. case map_of ds i of
                              None \<Rightarrow> Waiting rq
                            | Some (t, r) \<Rightarrow> Done (fst (get_token_store c rq r t))) [0..<n],
           sent = s\<rparr>"
proof (induction ds rule: rev_induct)
  case Nil
  have "map (\<lambda>i. Waiting rq) [0..<n] = replicate n (Waiting rq)"
    by (simp add: map_replicate_const)
  then show ?case
    by (simp add: schedule_def deliveries_def)
next
  case (snoc d ds)
  obtain i t r where d: "d = (i, t, r)"
    by (cases d)
  let ?g = "\<lambda>ds i. case map_of ds i of
                              None \<Rightarrow> Waiting rq
                            | Some (t, r) \<Rightarrow> Done (fst (get_token_store c rq r t))"
  from snoc obtain c' where
    ih: "schedule \<lparr>shared = c, tasks = replicate n (Waiting rq), sent = s\<rparr> (deliveries ds)
        = \<lparr>shared = c', tasks = map (?g ds) [0..<n], sent = s\<rparr>"
    by blast
  have step: "schedule \<lparr>shared = c, tasks = replicate n (Waiting rq), sent = s\<rparr>
                (deliveries (ds @ [d]))
              = resume \<lparr>shared = c', tasks = map (?g ds) [0..<n], sent = s\<rparr> (Deliver i t r)"
    using ih by (simp add: schedule_def deliveries_def d)
  have look: "map_of (ds @ [d]) j =
                (case map_of ds j of None \<Rightarrow> (if j = i then Some (t, r) else None)
                 | Some v \<Rightarrow> Some v)" for j
    by (simp add: d map_add_def split: option.splits)
  show ?case
  proof (cases "i < n \<and> map_of ds i = None")
    case True
    then have w: "map (?g ds) [0..<n] ! i = Waiting rq"
      by simp
    have g': "(?g ds)(i := Done (fst (get_token_store c' rq r t))) = ?g (ds @ [d])"
      unfolding look using True
      by (auto simp: fun_eq_iff get_token_store_result [of c' rq r t c]
          split: option.splits)
    have "resume \<lparr>shared = c', tasks = map (?g ds) [0..<n], sent = s\<rparr> (Deliver i t r)
          = \<lparr>shared = snd (get_token_store c' rq r t),
             tasks = map ((?g ds)(i := Done (fst (get_token_store c' rq r t)))) [0..<n],
             sent = s\<rparr>"
      using True w by (simp add: map_upt_update split: prod.splits)
    with step g' show ?thesis
      by auto
  next
    case False
    have same: "map (?g (ds @ [d])) [0..<n] = map (?g ds) [0..<n]"
      unfolding look using False by (auto split: option.splits)
    have "resume \<lparr>shared = c', tasks = map (?g ds) [0..<n], sent = s\<rparr> (Deliver i t r)
          = \<lparr>shared = c', tasks = map (?g ds) [0..<n], sent = s\<rparr>"
      using False by (auto split: option.splits)
    with step same show ?thesis
      by auto
  qed
qed

lemmas service_defs =
  example_client_def held_client_def example_runtime_def example_transport_def
  rejecting_runtime_def bare_runtime_def offline_runtime_def
  login_body_def projects_body_def not_found_def unauthorized_def empty_object_def
  no_content_def silent_runtime_def start_def later_def

lemmas client_defs =
  get_token_def get_token_check_def get_token_store_def login_request_def send_def
  raise_for_status_def response_json_def is_success_def request_def tracker_request_def
  hours_def minutes_def

section \<open>Credential reuse\<close>

text \<open>
  C1. When an access token is held (a value that counts as true, with an expiry instant)
  and the clock reads strictly less than the expiry instant minus five minutes,
  \<open>get_token\<close> returns exactly the held token, adds no exchange to the log of the world
  (no network call), and leaves the client, hence the triple of access token, refresh token
  and expiry instant, as it was.
\<close>

theorem get_token_reuse:
  assumes "truthy (access_token c)"
    and "token_expires_at c = Some e"
    and "now w < e - minutes 5"
  shows "get_token rt c w = (Inr (access_token c), c, w)"
  using assms by (simp add: get_token_def get_token_check_def)

theorem get_token_reuse_witness:
  "truthy (access_token held_client) \<and> token_expires_at held_client = Some (hours 1)
   \<and> now start < hours 1 - minutes 5
   \<and> get_token example_runtime held_client start = (Inr (JStr ''T0''), held_client, start)"
proof -
  have a: "truthy (access_token held_client)"
    by (simp add: held_client_def)
  have b: "token_expires_at held_client = Some (hours 1)"
    by (simp add: held_client_def)
  have c: "now start < hours 1 - minutes 5"
    by (simp add: start_def hours_def minutes_def)
  from get_token_reuse [OF a b c, of example_runtime] a b c show ?thesis
    by (simp add: held_client_def)
qed

section \<open>Login\<close>

text \<open>
  C2. When no access token is held, or the stored expiry instant is at or before the
  reading of the clock plus five minutes (equality included: the instant
  \<open>now = expiry - 5 minutes\<close>), \<open>get_token\<close> performs exactly one call, a
  \<^verbatim>\<open>POST\<close> to \<^verbatim>\<open><api_url>/api/accounts/token/\<close>: the log of the world grows by that one
  exchange. When the call succeeds (a success status and a JSON object with the key
  \<^verbatim>\<open>access\<close>), the client stores the access value, the refresh value (\<^verbatim>\<open>None\<close> when the
  body has none) and the expiry instant \<open>t + 1 hour\<close>, where \<open>t\<close> is the reading of the
  clock when the login has completed, the \<^verbatim>\<open>datetime.now()\<close> of the assignment; the new
  access token is returned.
\<close>

theorem get_token_login:
  assumes "\<not> truthy (access_token c) \<or>
           (case token_expires_at c of None \<Rightarrow> True | Some e \<Rightarrow> e \<le> now w + minutes 5)"
    and "transport rt w (login_request c) = (r, t)"
  shows "snd (snd (get_token rt c w)) =
           \<lparr>now = t,
            log = log w @ [\<lparr>ex_request = login_request c, ex_result = r, ex_done = t\<rparr>]\<rparr>
         \<and> req_method (login_request c) = ''POST''
         \<and> req_url (login_request c) = api_url c @ ''/api/accounts/token/''
         \<and> (\<forall>resp kvs a.
               r = Response resp \<and> is_success (status_code resp)
               \<and> decoded resp = Some (JObj kvs) \<and> map_of kvs ''access'' = Some a \<longrightarrow>
               fst (get_token rt c w) = Inr a
               \<and> fst (snd (get_token rt c w)) =
                   c\<lparr>access_token := a,
                     refresh_token := (case map_of kvs ''refresh'' of None \<Rightarrow> JNull | Some v \<Rightarrow> v),
                     token_expires_at := Some (t + hours 1)\<rparr>)"
proof -
  have chk: "get_token_check c (now w) = Login (login_request c)"
    using assms(1) by (rule get_token_check_login)
  note unf = get_token_login_unfold [OF chk assms(2)]
  show ?thesis
    by (simp add: unf get_token_store_ok login_request_def)
qed

theorem get_token_login_witness:
  "\<not> truthy (access_token example_client)
   \<and> transport example_runtime start (login_request example_client) = (Response login_body, 1)
   \<and> is_success (status_code login_body)
   \<and> decoded login_body = Some (JObj [(''access'', JStr ''T1'')])
   \<and> map_of [(''access'', JStr ''T1'')] ''access'' = Some (JStr ''T1'')
   \<and> get_token example_runtime example_client start =
       (Inr (JStr ''T1''),
        example_client\<lparr>access_token := JStr ''T1'', refresh_token := JNull,
                        token_expires_at := Some (1 + hours 1)\<rparr>,
        \<lparr>now = 1, log = [\<lparr>ex_request = login_request example_client,
                          ex_result = Response login_body, ex_done = 1\<rparr>]\<rparr>)"
proof -
  have a: "\<not> truthy (access_token example_client) \<or>
      (case token_expires_at example_client of None \<Rightarrow> True | Some e \<Rightarrow> e \<le> now start + minutes 5)"
    by (simp add: example_client_def)
  have b: "transport example_runtime start (login_request example_client) = (Response login_body, 1)"
    by (simp add: example_runtime_def example_transport_def login_request_def
        example_client_def start_def)
  have c: "is_success (status_code login_body)"
    and d: "decoded login_body = Some (JObj [(''access'', JStr ''T1'')])"
    by (simp_all add: login_body_def is_success_def)
  have e: "map_of [(''access'', JStr ''T1'')] ''access'' = Some (JStr ''T1'')"
    by simp
  from get_token_login [OF a b] c d e
  have "snd (snd (get_token example_runtime example_client start)) =
           \<lparr>now = 1, log = log start @ [\<lparr>ex_request = login_request example_client,
                          ex_result = Response login_body, ex_done = 1\<rparr>]\<rparr>"
    and "fst (get_token example_runtime example_client start) = Inr (JStr ''T1'')"
    and "fst (snd (get_token example_runtime example_client start)) =
           example_client\<lparr>access_token := JStr ''T1'', refresh_token := JNull,
                        token_expires_at := Some (1 + hours 1)\<rparr>"
    by auto
  then have "get_token example_runtime example_client start =
       (Inr (JStr ''T1''),
        example_client\<lparr>access_token := JStr ''T1'', refresh_token := JNull,
                        token_expires_at := Some (1 + hours 1)\<rparr>,
        \<lparr>now = 1, log = [\<lparr>ex_request = login_request example_client,
                          ex_result = Response login_body, ex_done = 1\<rparr>]\<rparr>)"
    by (simp add: prod_eq_iff start_def)
  moreover have "\<not> truthy (access_token example_client)"
    by (simp add: example_client_def)
  ultimately show ?thesis using b c d e by blast
qed

section \<open>Concurrent acquisition\<close>

text \<open>
  C3. The claim is that \<open>n\<close> concurrent calls of \<open>get_token\<close>, issued while no valid
  token is held, make one login call between them and all receive the same token. The
  client has no lock and no shared pending login: each call that finds no valid token sends
  its own login. With two calls started before either response arrives, two login requests
  are sent, and when the service answers them with different tokens the two callers
  receive different tokens.
\<close>

theorem single_flight_counterexample:
  "get_token_check example_client 0 = Login (login_request example_client)
   \<and> sent two_calls = [login_request example_client, login_request example_client]
   \<and> length (sent two_calls) = 2
   \<and> tasks two_calls = [Done (Inr (JStr ''T1'')), Done (Inr (JStr ''T2''))]"
  by (simp add: two_calls_def schedule_def gather_def get_token_check_def get_token_store_def
      raise_for_status_def response_json_def is_success_def login_body_def
      second_login_body_def example_client_def numeral_2_eq_2)

text \<open>
  C3, as the code has it. Start \<open>n\<close> calls, at clock readings at which no valid token is
  held, before any response is delivered. Then \<open>n\<close> login requests have been sent, one
  by each call, whatever responses are delivered afterwards and in whatever order; a call
  whose response has not arrived is still waiting, and a call whose response has arrived
  is done with the outcome of its own response: the access value of that response when the
  login succeeded.
\<close>

theorem concurrent_logins:
  assumes "\<forall>t \<in> set ts.
             \<not> truthy (access_token c) \<or>
             (case token_expires_at c of None \<Rightarrow> True | Some e \<Rightarrow> e \<le> t + minutes 5)"
  shows "sent (schedule (gather c (length ts)) (starts ts @ deliveries ds))
           = replicate (length ts) (login_request c)
         \<and> tasks (schedule (gather c (length ts)) (starts ts @ deliveries ds))
           = map (\<lambda>i. case map_of ds i of
                         None \<Rightarrow> Waiting (login_request c)
                       | Some (t, r) \<Rightarrow> Done (fst (get_token_store c (login_request c) r t)))
               [0..<length ts]
         \<and> (\<forall>i t resp kvs a.
               i < length ts \<and> map_of ds i = Some (t, Response resp)
               \<and> is_success (status_code resp) \<and> decoded resp = Some (JObj kvs)
               \<and> map_of kvs ''access'' = Some a \<longrightarrow>
               tasks (schedule (gather c (length ts)) (starts ts @ deliveries ds)) ! i
                 = Done (Inr a))"
proof -
  from assms have "\<forall>t \<in> set ts. get_token_check c t = Login (login_request c)"
    by (simp add: get_token_check_login)
  from schedule_starts [OF this]
  have st: "schedule (gather c (length ts)) (starts ts)
         = \<lparr>shared = c, tasks = replicate (length ts) (Waiting (login_request c)),
            sent = replicate (length ts) (login_request c)\<rparr>" .
  have app: "schedule (gather c (length ts)) (starts ts @ deliveries ds)
             = schedule (schedule (gather c (length ts)) (starts ts)) (deliveries ds)"
    by (simp add: schedule_def)
  from schedule_deliveries [of c "length ts" "login_request c"
      "replicate (length ts) (login_request c)" ds]
  obtain c' where fin: "schedule (gather c (length ts)) (starts ts @ deliveries ds)
        = \<lparr>shared = c',
           tasks = map (\<lambda>i. case map_of ds i of
                         None \<Rightarrow> Waiting (login_request c)
                       | Some (t, r) \<Rightarrow> Done (fst (get_token_store c (login_request c) r t)))
               [0..<length ts],
           sent = replicate (length ts) (login_request c)\<rparr>"
    unfolding app st by blast
  show ?thesis
    by (simp add: fin get_token_store_ok)
qed

theorem concurrent_logins_witness:
  "\<not> truthy (access_token example_client)
   \<and> sent three_calls =
        [login_request example_client, login_request example_client,
         login_request example_client]
   \<and> tasks three_calls =
        [Done (Inr (JStr ''T2'')), Done (Inr (JStr ''T1'')),
         Waiting (login_request example_client)]"
proof -
  have a: "\<not> truthy (access_token example_client)"
    by (simp add: example_client_def)
  then have h: "\<forall>t \<in> set [0, 0, 0 :: int].
             \<not> truthy (access_token example_client) \<or>
             (case token_expires_at example_client of None \<Rightarrow> True
              | Some e \<Rightarrow> e \<le> t + minutes 5)"
    by simp
  have r1: "fst (get_token_store example_client (login_request example_client)
                   (Response login_body) 5) = Inr (JStr ''T1'')"
    and r2: "fst (get_token_store example_client (login_request example_client)
                   (Response second_login_body) 6) = Inr (JStr ''T2'')"
    by (simp_all add: get_token_store_def raise_for_status_def response_json_def
        is_success_def login_body_def second_login_body_def)
  note th = concurrent_logins [OF h,
      of "[(1, 5, Response login_body), (0, 6, Response second_login_body)]"]
  from th have "sent three_calls =
      replicate (length [0, 0, 0 :: int]) (login_request example_client)"
    unfolding three_calls_def by blast
  then have s: "sent three_calls =
        [login_request example_client, login_request example_client,
         login_request example_client]"
    by simp
  from th have "tasks three_calls =
      map (\<lambda>i. case map_of [(1, 5, Response login_body), (0, 6, Response second_login_body)] i of
                  None \<Rightarrow> Waiting (login_request example_client)
                | Some (t, r) \<Rightarrow>
                    Done (fst (get_token_store example_client (login_request example_client) r t)))
        [0..<length [0, 0, 0 :: int]]"
    unfolding three_calls_def by blast
  then have t: "tasks three_calls =
        [Done (Inr (JStr ''T2'')), Done (Inr (JStr ''T1'')),
         Waiting (login_request example_client)]"
    by (simp add: r1 r2)
  from a s t show ?thesis
    by simp
qed

section \<open>The target of a dispatch\<close>

text \<open>
  C4. A call of \<open>request\<close> (the dispatch operation \<^verbatim>\<open>_request\<close>) with verb \<open>method\<close>
  and suffix \<open>endpoint\<close> first acquires a token with \<open>get_token\<close>. When that returns
  a token, the one further exchange is the request with that verb to exactly
  \<^verbatim>\<open><api_url>/api/tracker/<endpoint>\<close>, with the single header \<^verbatim>\<open>Authorization\<close> whose
  value is \<^verbatim>\<open>Bearer \<close> followed by the text of the token (the token itself when it is a
  string). When \<open>get_token\<close> raises, nothing further is sent. The only other exchange a
  dispatch can add is the login of \<open>get_token\<close>, whose target is
  \<^verbatim>\<open><api_url>/api/accounts/token/\<close>. The URL is the one handed to \<^verbatim>\<open>httpx\<close>; query
  parameters, which no domain method gives, are handed over beside it. For the client of
  \<^verbatim>\<open>https://api.apiport.hu\<close>, \<^verbatim>\<open>GET projects/5/\<close> goes to
  \<^verbatim>\<open>https://api.apiport.hu/api/tracker/projects/5/\<close> with \<^verbatim>\<open>Authorization: Bearer T1\<close>.
\<close>

theorem request_target:
  assumes "get_token rt c w = (tok, c1, w1)"
  shows "(\<forall>token. tok = Inr token \<longrightarrow>
            snd (snd (request rt c w method endpoint js params)) =
              \<lparr>now = snd (transport rt w1 (tracker_request rt c1 token method endpoint js params)),
               log = log w1 @
                 [\<lparr>ex_request =
                     \<lparr>req_method = method,
                      req_url = api_url c @ ''/api/tracker/'' @ endpoint,
                      req_headers = [(''Authorization'', ''Bearer '' @ py_str rt token)],
                      req_json = js, req_params = params, req_verify = verify_ssl c\<rparr>,
                   ex_result = fst (transport rt w1 (tracker_request rt c1 token method endpoint js params)),
                   ex_done = snd (transport rt w1 (tracker_request rt c1 token method endpoint js params))\<rparr>]\<rparr>)
         \<and> (\<forall>e. tok = Inl e \<longrightarrow> request rt c w method endpoint js params = (Inl e, c1, w1))
         \<and> (log w1 = log w
              \<or> log w1 = log w @
                   [\<lparr>ex_request = login_request c,
                     ex_result = fst (transport rt w (login_request c)),
                     ex_done = snd (transport rt w (login_request c))\<rparr>])
         \<and> req_url (login_request c) = api_url c @ ''/api/accounts/token/''
         \<and> (\<forall>t. py_str rt (JStr t) = t)"
proof (intro conjI allI impI)
  fix token assume "tok = Inr token"
  with assms have g: "get_token rt c w = (Inr token, c1, w1)" by simp
  obtain r t where tr: "transport rt w1 (tracker_request rt c1 token method endpoint js params) = (r, t)"
    by (cases "transport rt w1 (tracker_request rt c1 token method endpoint js params)")
  from get_token_identity [OF g]
  have "tracker_request rt c1 token method endpoint js params =
          \<lparr>req_method = method,
           req_url = api_url c @ ''/api/tracker/'' @ endpoint,
           req_headers = [(''Authorization'', ''Bearer '' @ py_str rt token)],
           req_json = js, req_params = params, req_verify = verify_ssl c\<rparr>"
    by (simp add: tracker_request_def)
  with request_after_token [OF g tr] tr
  show "snd (snd (request rt c w method endpoint js params)) =
              \<lparr>now = snd (transport rt w1 (tracker_request rt c1 token method endpoint js params)),
               log = log w1 @
                 [\<lparr>ex_request =
                     \<lparr>req_method = method,
                      req_url = api_url c @ ''/api/tracker/'' @ endpoint,
                      req_headers = [(''Authorization'', ''Bearer '' @ py_str rt token)],
                      req_json = js, req_params = params, req_verify = verify_ssl c\<rparr>,
                   ex_result = fst (transport rt w1 (tracker_request rt c1 token method endpoint js params)),
                   ex_done = snd (transport rt w1 (tracker_request rt c1 token method endpoint js params))\<rparr>]\<rparr>"
    by simp
next
  fix e assume "tok = Inl e"
  with assms show "request rt c w method endpoint js params = (Inl e, c1, w1)"
    by (simp add: request_token_error)
next
  show "log w1 = log w
              \<or> log w1 = log w @
                   [\<lparr>ex_request = login_request c,
                     ex_result = fst (transport rt w (login_request c)),
                     ex_done = snd (transport rt w (login_request c))\<rparr>]"
  proof (cases rule: get_token_cases [of c w rt])
    case (reuse a)
    with assms show ?thesis by simp
  next
    case (login r t)
    with assms show ?thesis by auto
  qed
next
  show "req_url (login_request c) = api_url c @ ''/api/accounts/token/''"
    by (simp add: login_request_def)
next
  fix t show "py_str rt (JStr t) = t" by simp
qed


theorem request_target_witness:
  "get_token example_runtime example_client start =
     (Inr (JStr ''T1''),
      example_client\<lparr>access_token := JStr ''T1'', token_expires_at := Some (1 + hours 1)\<rparr>,
      \<lparr>now = 1, log = [\<lparr>ex_request = login_request example_client,
                         ex_result = Response login_body, ex_done = 1\<rparr>]\<rparr>)
   \<and> req_url (login_request example_client) = ''https://api.apiport.hu/api/accounts/token/''
   \<and> log (snd (snd (request example_runtime example_client start ''GET'' ''projects/5/'' None None))) =
       [\<lparr>ex_request = login_request example_client,
         ex_result = Response login_body, ex_done = 1\<rparr>,
        \<lparr>ex_request =
           \<lparr>req_method = ''GET'',
            req_url = ''https://api.apiport.hu/api/tracker/projects/5/'',
            req_headers = [(''Authorization'', ''Bearer T1'')],
            req_json = None, req_params = None, req_verify = True\<rparr>,
         ex_result = Response not_found, ex_done = 2\<rparr>]"
proof -
  have g: "get_token example_runtime example_client start =
     (Inr (JStr ''T1''),
      example_client\<lparr>access_token := JStr ''T1'', token_expires_at := Some (1 + hours 1)\<rparr>,
      \<lparr>now = 1, log = [\<lparr>ex_request = login_request example_client,
                         ex_result = Response login_body, ex_done = 1\<rparr>]\<rparr>)"
    by (simp add: service_defs client_defs)
  have t: "transport example_runtime
             \<lparr>now = 1, log = [\<lparr>ex_request = login_request example_client,
                         ex_result = Response login_body, ex_done = 1\<rparr>]\<rparr>
             (tracker_request example_runtime
                (example_client\<lparr>access_token := JStr ''T1'', token_expires_at := Some (1 + hours 1)\<rparr>)
                (JStr ''T1'') ''GET'' ''projects/5/'' None None) = (Response not_found, 2)"
    by (simp add: service_defs tracker_request_def)
  from request_target [OF g, of "''GET''" "''projects/5/''" None None] t g
  show ?thesis
    by (simp add: example_client_def login_request_def)
qed

section \<open>State after a failed login\<close>

text \<open>
  C5. Whenever \<open>get_token\<close> raises, the client after the call is the client before it,
  so the triple of access token, refresh token and expiry instant is unchanged. A login
  whose response has a non-success status, or a JSON object without the key \<^verbatim>\<open>access\<close>
  as its body, is such a case. In particular a failed login does not produce a held access
  token with an unset expiry instant: that pairing is there after the failure only if it
  was there before.
\<close>

theorem failed_login_keeps_state:
  assumes "get_token rt c w = (res, c', w')"
  shows "(\<forall>e. res = Inl e \<longrightarrow> c' = c)
         \<and> (\<forall>resp.
               (\<not> truthy (access_token c) \<or>
                  (case token_expires_at c of None \<Rightarrow> True | Some e \<Rightarrow> e \<le> now w + minutes 5))
               \<and> fst (transport rt w (login_request c)) = Response resp
               \<and> (\<not> is_success (status_code resp)
                  \<or> (\<exists>kvs. decoded resp = Some (JObj kvs) \<and> map_of kvs ''access'' = None)) \<longrightarrow>
               (\<exists>e. res = Inl e) \<and> c' = c)
         \<and> (\<forall>e. res = Inl e \<and> truthy (access_token c') \<and> token_expires_at c' = None \<longrightarrow>
                truthy (access_token c) \<and> token_expires_at c = None)"
proof (intro conjI allI impI)
  fix e assume "res = Inl e"
  with assms show "c' = c" by (simp add: get_token_error_state)
next
  fix resp
  assume h: "(\<not> truthy (access_token c) \<or>
                  (case token_expires_at c of None \<Rightarrow> True | Some e \<Rightarrow> e \<le> now w + minutes 5))
               \<and> fst (transport rt w (login_request c)) = Response resp
               \<and> (\<not> is_success (status_code resp)
                  \<or> (\<exists>kvs. decoded resp = Some (JObj kvs) \<and> map_of kvs ''access'' = None))"
  then have chk: "get_token_check c (now w) = Login (login_request c)"
    by (simp add: get_token_check_login)
  from h obtain t where tr: "transport rt w (login_request c) = (Response resp, t)"
    by (cases "transport rt w (login_request c)") simp
  from h have st: "get_token_store c (login_request c) (Response resp) t =
           (Inl (if is_success (status_code resp) then KeyError ''access''
                 else HTTPStatusError (login_request c) resp), c)"
    by (simp add: get_token_store_rejected)
  from get_token_login_unfold [OF chk tr] st assms
  show "\<exists>e. res = Inl e" and "c' = c"
    by simp_all
next
  fix e assume "res = Inl e \<and> truthy (access_token c') \<and> token_expires_at c' = None"
  with assms show "truthy (access_token c)" and "token_expires_at c = None"
    by (auto dest: get_token_error_state)
qed

theorem failed_login_keeps_state_witness:
  "fst (get_token rejecting_runtime held_client later) =
     Inl (HTTPStatusError (login_request held_client) unauthorized)
   \<and> fst (snd (get_token rejecting_runtime held_client later)) = held_client
   \<and> access_token held_client = JStr ''T0''
   \<and> token_expires_at held_client = Some (hours 1)"
proof -
  obtain res c' w' where g: "get_token rejecting_runtime held_client later = (res, c', w')"
    by (cases "get_token rejecting_runtime held_client later")
  have "fst (get_token rejecting_runtime held_client later) =
          Inl (HTTPStatusError (login_request held_client) unauthorized)"
    by (simp add: service_defs client_defs)
  with g have r: "res = Inl (HTTPStatusError (login_request held_client) unauthorized)"
    by simp
  from failed_login_keeps_state [OF g] r have "c' = held_client"
    by blast
  with g r show ?thesis
    by (simp add: held_client_def)
qed

section \<open>Outcomes of a dispatch\<close>

text \<open>
  C6. The claim is that in every dispatch a response outside 200 to 299 raises the
  \<^verbatim>\<open>RemoteRequestFailure\<close> of the specification with status and body, a call that cannot
  complete raises its \<^verbatim>\<open>TransportFailure\<close>, neither is repeated, and a response with a
  success status returns the parsed JSON body. The last part fails where the body is not
  JSON: \<^verbatim>\<open>response.json()\<close> then raises. A \<^verbatim>\<open>DELETE\<close> answered with 204 and an empty
  body, sent by a client that holds a valid token, raises \<open>JSONDecodeError\<close> after its one
  exchange.
\<close>

theorem request_no_content_counterexample:
  "is_success (status_code no_content)
   \<and> decoded no_content = None
   \<and> request silent_runtime held_client start ''DELETE'' ''sprints/3/members/4/'' None None =
        (Inl JSONDecodeError, held_client,
         \<lparr>now = 1,
          log = [\<lparr>ex_request = tracker_request silent_runtime held_client (JStr ''T0'')
                                  ''DELETE'' ''sprints/3/members/4/'' None None,
                  ex_result = Response no_content, ex_done = 1\<rparr>]\<rparr>)"
  by (simp add: service_defs client_defs)

text \<open>
  C6, as the code has it. In a dispatch whose token was acquired, the one call to the
  tracker endpoint decides the outcome, and it is made once (the log grows by that one
  exchange, whatever its result): a response with a status outside 200 to 299 raises
  \<open>HTTPStatusError\<close>, which carries the request and the response, hence its status and
  body; a call that cannot complete raises \<open>TransportError\<close>; a response with a success
  status returns the parsed body when the body is JSON and raises \<open>JSONDecodeError\<close>
  when it is not. When the token was not acquired, the dispatch raises what \<open>get_token\<close>
  raised and sends nothing more; in particular a login that cannot complete raises
  \<open>TransportError\<close> after that one login exchange.
\<close>

theorem request_outcomes:
  assumes "get_token rt c w = (tok, c1, w1)"
  shows "(\<forall>token r t.
            tok = Inr token
            \<and> transport rt w1 (tracker_request rt c1 token method endpoint js params) = (r, t) \<longrightarrow>
            snd (request rt c w method endpoint js params) =
              (c1,
               \<lparr>now = t,
                log = log w1 @
                  [\<lparr>ex_request = tracker_request rt c1 token method endpoint js params,
                    ex_result = r, ex_done = t\<rparr>]\<rparr>)
            \<and> (\<forall>resp. r = Response resp \<and> \<not> is_success (status_code resp) \<longrightarrow>
                  fst (request rt c w method endpoint js params) =
                    Inl (HTTPStatusError
                           (tracker_request rt c1 token method endpoint js params) resp))
            \<and> (r = Failed \<longrightarrow>
                  fst (request rt c w method endpoint js params) =
                    Inl (TransportError (tracker_request rt c1 token method endpoint js params)))
            \<and> (\<forall>resp. r = Response resp \<and> is_success (status_code resp) \<longrightarrow>
                  fst (request rt c w method endpoint js params) =
                    (case decoded resp of None \<Rightarrow> Inl JSONDecodeError | Some j \<Rightarrow> Inr j)))
         \<and> (\<forall>e. tok = Inl e \<longrightarrow> request rt c w method endpoint js params = (Inl e, c1, w1))
         \<and> ((\<not> truthy (access_token c) \<or>
               (case token_expires_at c of None \<Rightarrow> True | Some e \<Rightarrow> e \<le> now w + minutes 5))
             \<and> fst (transport rt w (login_request c)) = Failed \<longrightarrow>
               request rt c w method endpoint js params =
                 (Inl (TransportError (login_request c)), c,
                  \<lparr>now = snd (transport rt w (login_request c)),
                   log = log w @
                     [\<lparr>ex_request = login_request c, ex_result = Failed,
                       ex_done = snd (transport rt w (login_request c))\<rparr>]\<rparr>))"
proof -
  have tracker: "snd (request rt c w method endpoint js params) =
              (c1,
               \<lparr>now = t,
                log = log w1 @
                  [\<lparr>ex_request = tracker_request rt c1 token method endpoint js params,
                    ex_result = r, ex_done = t\<rparr>]\<rparr>)
            \<and> (\<forall>resp. r = Response resp \<and> \<not> is_success (status_code resp) \<longrightarrow>
                  fst (request rt c w method endpoint js params) =
                    Inl (HTTPStatusError
                           (tracker_request rt c1 token method endpoint js params) resp))
            \<and> (r = Failed \<longrightarrow>
                  fst (request rt c w method endpoint js params) =
                    Inl (TransportError (tracker_request rt c1 token method endpoint js params)))
            \<and> (\<forall>resp. r = Response resp \<and> is_success (status_code resp) \<longrightarrow>
                  fst (request rt c w method endpoint js params) =
                    (case decoded resp of None \<Rightarrow> Inl JSONDecodeError | Some j \<Rightarrow> Inr j))"
    if h: "tok = Inr token
            \<and> transport rt w1 (tracker_request rt c1 token method endpoint js params) = (r, t)"
    for token r t
  proof -
    from h assms have g: "get_token rt c w = (Inr token, c1, w1)"
      and tr: "transport rt w1 (tracker_request rt c1 token method endpoint js params) = (r, t)"
      by simp_all
    show ?thesis
      by (simp add: request_after_token [OF g tr] raise_for_status_def response_json_def)
  qed
  have raised: "request rt c w method endpoint js params = (Inl e, c1, w1)" if "tok = Inl e" for e
    using that assms by (simp add: request_token_error)
  have offline: "request rt c w method endpoint js params =
                 (Inl (TransportError (login_request c)), c,
                  \<lparr>now = snd (transport rt w (login_request c)),
                   log = log w @
                     [\<lparr>ex_request = login_request c, ex_result = Failed,
                       ex_done = snd (transport rt w (login_request c))\<rparr>]\<rparr>)"
    if h: "(\<not> truthy (access_token c) \<or>
               (case token_expires_at c of None \<Rightarrow> True | Some e \<Rightarrow> e \<le> now w + minutes 5))
             \<and> fst (transport rt w (login_request c)) = Failed"
  proof -
    from h have chk: "get_token_check c (now w) = Login (login_request c)"
      by (simp add: get_token_check_login)
    from h have tr: "transport rt w (login_request c) =
                       (Failed, snd (transport rt w (login_request c)))"
      by (simp add: prod_eq_iff)
    have "get_token rt c w =
            (Inl (TransportError (login_request c)), c,
             \<lparr>now = snd (transport rt w (login_request c)),
              log = log w @
                [\<lparr>ex_request = login_request c, ex_result = Failed,
                  ex_done = snd (transport rt w (login_request c))\<rparr>]\<rparr>)"
      using get_token_login_unfold [OF chk tr] by (simp add: get_token_store_def)
    then show ?thesis
      by (rule request_token_error)
  qed
  from tracker raised offline show ?thesis
    by blast
qed

theorem request_outcomes_witness:
  "get_token example_runtime held_client start = (Inr (JStr ''T0''), held_client, start)
   \<and> status_code not_found = 404 \<and> content not_found = ''Not Found''
   \<and> request example_runtime held_client start ''GET'' ''projects/5/'' None None =
        (Inl (HTTPStatusError
                (tracker_request example_runtime held_client (JStr ''T0'') ''GET'' ''projects/5/'' None None)
                not_found),
         held_client,
         \<lparr>now = 1,
          log = [\<lparr>ex_request = tracker_request example_runtime held_client (JStr ''T0'')
                                  ''GET'' ''projects/5/'' None None,
                  ex_result = Response not_found, ex_done = 1\<rparr>]\<rparr>)
   \<and> request offline_runtime held_client start ''GET'' ''projects/5/'' None None =
        (Inl (TransportError
                (tracker_request offline_runtime held_client (JStr ''T0'') ''GET'' ''projects/5/'' None None)),
         held_client,
         \<lparr>now = 1,
          log = [\<lparr>ex_request = tracker_request offline_runtime held_client (JStr ''T0'')
                                  ''GET'' ''projects/5/'' None None,
                  ex_result = Failed, ex_done = 1\<rparr>]\<rparr>)
   \<and> request example_runtime held_client start ''GET'' ''projects/'' None None =
        (Inr (JObj [(''projects'',
                JArr [JObj [(''id'', JInt 1), (''name'', JStr ''X''), (''status'', JStr ''active'')]])]),
         held_client,
         \<lparr>now = 1,
          log = [\<lparr>ex_request = tracker_request example_runtime held_client (JStr ''T0'')
                                  ''GET'' ''projects/'' None None,
                  ex_result = Response projects_body, ex_done = 1\<rparr>]\<rparr>)
   \<and> fst (request silent_runtime held_client start ''DELETE'' ''sprints/3/members/4/'' None None)
        = Inl JSONDecodeError
   \<and> \<not> truthy (access_token example_client)
   \<and> request offline_runtime example_client start ''GET'' ''projects/'' None None =
        (Inl (TransportError (login_request example_client)), example_client,
         \<lparr>now = 1,
          log = [\<lparr>ex_request = login_request example_client, ex_result = Failed,
                  ex_done = 1\<rparr>]\<rparr>)"
proof -
  have g1: "get_token example_runtime held_client start = (Inr (JStr ''T0''), held_client, start)"
    by (simp add: service_defs client_defs)
  have g2: "get_token offline_runtime held_client start = (Inr (JStr ''T0''), held_client, start)"
    by (simp add: service_defs client_defs)
  have g3: "get_token silent_runtime held_client start = (Inr (JStr ''T0''), held_client, start)"
    by (simp add: service_defs client_defs)
  obtain tok c1 w1 where g4: "get_token offline_runtime example_client start = (tok, c1, w1)"
    by (cases "get_token offline_runtime example_client start")
  have t1: "transport example_runtime start
              (tracker_request example_runtime held_client (JStr ''T0'') ''GET'' ''projects/5/'' None None)
            = (Response not_found, 1)"
    by (simp add: service_defs tracker_request_def)
  have t2: "transport offline_runtime start
              (tracker_request offline_runtime held_client (JStr ''T0'') ''GET'' ''projects/5/'' None None)
            = (Failed, 1)"
    by (simp add: service_defs)
  have t3: "transport example_runtime start
              (tracker_request example_runtime held_client (JStr ''T0'') ''GET'' ''projects/'' None None)
            = (Response projects_body, 1)"
    by (simp add: service_defs tracker_request_def)
  have t4: "transport silent_runtime start
              (tracker_request silent_runtime held_client (JStr ''T0'')
                 ''DELETE'' ''sprints/3/members/4/'' None None)
            = (Response no_content, 1)"
    by (simp add: service_defs)
  have t5: "transport offline_runtime start (login_request example_client) = (Failed, 1)"
    by (simp add: service_defs)
  have s: "\<not> is_success (status_code not_found)" "is_success (status_code projects_body)"
    "status_code not_found = 404" "content not_found = ''Not Found''"
    "decoded projects_body = Some (JObj [(''projects'',
                JArr [JObj [(''id'', JInt 1), (''name'', JStr ''X''), (''status'', JStr ''active'')]])])"
    "is_success (status_code no_content)" "decoded no_content = None"
    by (simp_all add: not_found_def projects_body_def no_content_def is_success_def)
  have a: "\<not> truthy (access_token example_client)"
    by (simp add: example_client_def)
  note o1 = request_outcomes [OF g1, of "''GET''" "''projects/5/''" None None]
  note o2 = request_outcomes [OF g2, of "''GET''" "''projects/5/''" None None]
  note o3 = request_outcomes [OF g1, of "''GET''" "''projects/''" None None]
  note o4 = request_outcomes [OF g3, of "''DELETE''" "''sprints/3/members/4/''" None None]
  note o5 = request_outcomes [OF g4, of "''GET''" "''projects/''" None None]
  from o1 t1 s have r1: "request example_runtime held_client start ''GET'' ''projects/5/'' None None =
        (Inl (HTTPStatusError
                (tracker_request example_runtime held_client (JStr ''T0'') ''GET'' ''projects/5/'' None None)
                not_found),
         held_client,
         \<lparr>now = 1,
          log = [\<lparr>ex_request = tracker_request example_runtime held_client (JStr ''T0'')
                                  ''GET'' ''projects/5/'' None None,
                  ex_result = Response not_found, ex_done = 1\<rparr>]\<rparr>)"
    by (simp add: prod_eq_iff start_def)
  from o2 t2 have r2: "request offline_runtime held_client start ''GET'' ''projects/5/'' None None =
        (Inl (TransportError
                (tracker_request offline_runtime held_client (JStr ''T0'') ''GET'' ''projects/5/'' None None)),
         held_client,
         \<lparr>now = 1,
          log = [\<lparr>ex_request = tracker_request offline_runtime held_client (JStr ''T0'')
                                  ''GET'' ''projects/5/'' None None,
                  ex_result = Failed, ex_done = 1\<rparr>]\<rparr>)"
    by (simp add: prod_eq_iff start_def)
  from o3 t3 s have r3: "request example_runtime held_client start ''GET'' ''projects/'' None None =
        (Inr (JObj [(''projects'',
                JArr [JObj [(''id'', JInt 1), (''name'', JStr ''X''), (''status'', JStr ''active'')]])]),
         held_client,
         \<lparr>now = 1,
          log = [\<lparr>ex_request = tracker_request example_runtime held_client (JStr ''T0'')
                                  ''GET'' ''projects/'' None None,
                  ex_result = Response projects_body, ex_done = 1\<rparr>]\<rparr>)"
    by (simp add: prod_eq_iff start_def)
  from o4 t4 s
  have r4: "fst (request silent_runtime held_client start ''DELETE'' ''sprints/3/members/4/'' None None)
        = Inl JSONDecodeError"
    by simp
  from o5 t5 a
  have r5: "request offline_runtime example_client start ''GET'' ''projects/'' None None =
        (Inl (TransportError (login_request example_client)), example_client,
         \<lparr>now = 1,
          log = [\<lparr>ex_request = login_request example_client, ex_result = Failed,
                  ex_done = 1\<rparr>]\<rparr>)"
    by (simp add: start_def)
  from g1 s r1 r2 r3 r4 r5 a show ?thesis
    by simp
qed

section \<open>A failed login reaches the caller\<close>

text \<open>
  C7. When a login is due and its response has a non-success status or a JSON object
  without the key \<^verbatim>\<open>access\<close> as its body, \<open>get_token\<close> raises: \<open>HTTPStatusError\<close>
  for the status, \<open>KeyError\<close> for the missing key (the \<^verbatim>\<open>AuthenticationFailure\<close> of the
  specification). The login is made once: the log holds that one exchange more. A dispatch
  returns exactly what \<open>get_token\<close> returned: the same exception, the same client and
  the same world, so without a tracker call.
\<close>

theorem login_failure_propagates:
  assumes "\<not> truthy (access_token c) \<or>
           (case token_expires_at c of None \<Rightarrow> True | Some e \<Rightarrow> e \<le> now w + minutes 5)"
    and "transport rt w (login_request c) = (Response resp, t)"
    and "\<not> is_success (status_code resp)
         \<or> (\<exists>kvs. decoded resp = Some (JObj kvs) \<and> map_of kvs ''access'' = None)"
  shows "get_token rt c w =
           (Inl (if is_success (status_code resp) then KeyError ''access''
                 else HTTPStatusError (login_request c) resp),
            c,
            \<lparr>now = t,
             log = log w @ [\<lparr>ex_request = login_request c, ex_result = Response resp,
                             ex_done = t\<rparr>]\<rparr>)
         \<and> request rt c w method endpoint js params = get_token rt c w"
proof -
  have chk: "get_token_check c (now w) = Login (login_request c)"
    using assms(1) by (rule get_token_check_login)
  have tok: "get_token rt c w =
           (Inl (if is_success (status_code resp) then KeyError ''access''
                 else HTTPStatusError (login_request c) resp),
            c,
            \<lparr>now = t,
             log = log w @ [\<lparr>ex_request = login_request c, ex_result = Response resp,
                             ex_done = t\<rparr>]\<rparr>)"
    using get_token_login_unfold [OF chk assms(2)] get_token_store_rejected [OF assms(3)]
    by simp
  from request_token_error [OF tok] tok show ?thesis by simp
qed

theorem login_failure_propagates_witness:
  "\<not> truthy (access_token example_client)
   \<and> transport rejecting_runtime start (login_request example_client) = (Response unauthorized, 1)
   \<and> \<not> is_success (status_code unauthorized)
   \<and> get_token rejecting_runtime example_client start =
        (Inl (HTTPStatusError (login_request example_client) unauthorized), example_client,
         \<lparr>now = 1, log = [\<lparr>ex_request = login_request example_client,
                            ex_result = Response unauthorized, ex_done = 1\<rparr>]\<rparr>)
   \<and> request rejecting_runtime example_client start ''GET'' ''projects/'' None None =
        (Inl (HTTPStatusError (login_request example_client) unauthorized), example_client,
         \<lparr>now = 1, log = [\<lparr>ex_request = login_request example_client,
                            ex_result = Response unauthorized, ex_done = 1\<rparr>]\<rparr>)
   \<and> transport bare_runtime start (login_request example_client) = (Response empty_object, 1)
   \<and> decoded empty_object = Some (JObj []) \<and> map_of [] ''access'' = (None :: json option)
   \<and> get_token bare_runtime example_client start =
        (Inl (KeyError ''access''), example_client,
         \<lparr>now = 1, log = [\<lparr>ex_request = login_request example_client,
                            ex_result = Response empty_object, ex_done = 1\<rparr>]\<rparr>)
   \<and> request bare_runtime example_client start ''GET'' ''projects/'' None None =
        (Inl (KeyError ''access''), example_client,
         \<lparr>now = 1, log = [\<lparr>ex_request = login_request example_client,
                            ex_result = Response empty_object, ex_done = 1\<rparr>]\<rparr>)"
proof -
  have a: "\<not> truthy (access_token example_client) \<or>
           (case token_expires_at example_client of None \<Rightarrow> True
            | Some e \<Rightarrow> e \<le> now start + minutes 5)"
    and a': "\<not> truthy (access_token example_client)"
    by (simp_all add: example_client_def)
  have b1: "transport rejecting_runtime start (login_request example_client) =
              (Response unauthorized, 1)"
    by (simp add: rejecting_runtime_def start_def)
  have c1: "\<not> is_success (status_code unauthorized)"
    by (simp add: unauthorized_def is_success_def)
  then have c1': "\<not> is_success (status_code unauthorized)
         \<or> (\<exists>kvs. decoded unauthorized = Some (JObj kvs) \<and> map_of kvs ''access'' = None)"
    by simp
  have b2: "transport bare_runtime start (login_request example_client) =
              (Response empty_object, 1)"
    by (simp add: bare_runtime_def start_def)
  have c2: "decoded empty_object = Some (JObj [])" "is_success (status_code empty_object)"
    by (simp_all add: empty_object_def is_success_def)
  then have c2': "\<not> is_success (status_code empty_object)
         \<or> (\<exists>kvs. decoded empty_object = Some (JObj kvs) \<and> map_of kvs ''access'' = None)"
    by simp
  note r1 = login_failure_propagates [OF a b1 c1', of "''GET''" "''projects/''" None None]
  note r2 = login_failure_propagates [OF a b2 c2', of "''GET''" "''projects/''" None None]
  from r1 r2 a' b1 b2 c1 c2 show ?thesis
    by (simp add: start_def)
qed

section \<open>The invariant of the credential state\<close>

text \<open>
  C8. Start from a freshly constructed client (a result of \<open>init\<close>) in a world with an
  empty log, and run any sequence of \<open>get_token\<close> and \<open>request\<close> operations, each
  begun at any reading of the clock. In the state reached, whenever the access token is
  non-empty (counts as true), the expiry instant is set: the log holds a successful login
  of this client whose response carried that token, and the expiry instant is the instant
  that login completed and the token was stored, plus one hour.
\<close>

theorem credential_expiry_invariant:
  assumes "init environ u e p v = Inr c0"
    and "log w0 = []"
    and "run rt (c0, w0) ops = (c, w)"
  shows "credential_inv c w
         \<and> (truthy (access_token c) \<longrightarrow>
              (\<exists>x \<in> set (log w). \<exists>resp kvs.
                 ex_request x = login_request c \<and> ex_result x = Response resp
                 \<and> is_success (status_code resp) \<and> decoded resp = Some (JObj kvs)
                 \<and> map_of kvs ''access'' = Some (access_token c)
                 \<and> token_expires_at c = Some (ex_done x + hours 1)))"
proof -
  from init_fresh [OF assms(1)] have "credential_inv c0 w0"
    by (simp add: credential_inv_def)
  from run_inv [OF this assms(3)] have inv: "credential_inv c w" .
  have "\<exists>resp kvs.
                 ex_request x = login_request c \<and> ex_result x = Response resp
                 \<and> is_success (status_code resp) \<and> decoded resp = Some (JObj kvs)
                 \<and> map_of kvs ''access'' = Some (access_token c)" if "minted_by c x" for x
    using that
    by (auto simp: minted_by_def split: net_result.splits option.splits json.splits)
  with inv show ?thesis
    unfolding credential_inv_def by blast
qed

theorem credential_expiry_invariant_witness:
  "init Map.empty None (Some ''a@b.com'') (Some ''secret'') True = Inr example_client
   \<and> log start = []
   \<and> fst (run example_runtime (example_client, start)
            [(0, Dispatch ''GET'' ''projects/'' None None), (minutes 30, Acquire)]) =
       example_client\<lparr>access_token := JStr ''T1'', token_expires_at := Some (1 + hours 1)\<rparr>
   \<and> truthy (JStr ''T1'')
   \<and> credential_inv
        (fst (run example_runtime (example_client, start)
            [(0, Dispatch ''GET'' ''projects/'' None None), (minutes 30, Acquire)]))
        (snd (run example_runtime (example_client, start)
            [(0, Dispatch ''GET'' ''projects/'' None None), (minutes 30, Acquire)]))"
proof -
  have a: "init Map.empty None (Some ''a@b.com'') (Some ''secret'') True = Inr example_client"
    by (simp add: init_def or_else_def getenv_def example_client_def)
  have b: "log start = []"
    by (simp add: start_def)
  obtain c w where r: "run example_runtime (example_client, start)
            [(0, Dispatch ''GET'' ''projects/'' None None), (minutes 30, Acquire)] = (c, w)"
    by (cases "run example_runtime (example_client, start)
            [(0, Dispatch ''GET'' ''projects/'' None None), (minutes 30, Acquire)]")
  have "fst (run example_runtime (example_client, start)
            [(0, Dispatch ''GET'' ''projects/'' None None), (minutes 30, Acquire)]) =
       example_client\<lparr>access_token := JStr ''T1'', token_expires_at := Some (1 + hours 1)\<rparr>"
    by (simp add: run_def service_defs client_defs)
  with credential_expiry_invariant [OF a b r] a b r show ?thesis
    by simp
qed

section \<open>Construction\<close>

text \<open>
  C9. A client constructed with the TLS flag \<open>False\<close> does not store \<open>False\<close> as
  such: the stored flag is whether the environment variable \<^verbatim>\<open>VERIFY_SSL\<close>, with the
  default \<^verbatim>\<open>true\<close>, reads \<^verbatim>\<open>true\<close> in lower case. With the variable unset the stored flag
  is \<open>True\<close>, and the login request is sent with verification on; the stored flag is
  \<open>False\<close> only if the variable is set to a value other than \<^verbatim>\<open>true\<close>.
\<close>

theorem verify_ssl_false_discarded:
  assumes "init environ u e p False = Inr c"
  shows "(environ ''VERIFY_SSL'' = None \<longrightarrow> verify_ssl c \<and> req_verify (login_request c))
         \<and> (\<not> verify_ssl c \<longrightarrow> (\<exists>v. environ ''VERIFY_SSL'' = Some v \<and> v \<noteq> ''true''))
         \<and> verify_ssl c = (py_lower (getenv environ ''VERIFY_SSL'' ''true'') = ''true'')"
proof -
  have low: "py_lower ''true'' = ''true''"
    by (simp add: py_lower_def)
  from assms have v: "verify_ssl c = (py_lower (getenv environ ''VERIFY_SSL'' ''true'') = ''true'')"
    by (auto simp: init_def split: option.splits if_splits)
  show ?thesis
  proof (cases "environ ''VERIFY_SSL''")
    case None
    with v low show ?thesis
      by (simp add: getenv_def login_request_def)
  next
    case (Some val)
    with v low show ?thesis
      by (auto simp: getenv_def)
  qed
qed


theorem verify_ssl_false_discarded_witness:
  "init Map.empty None (Some ''a@b.com'') (Some ''secret'') False = Inr example_client
   \<and> (Map.empty :: string \<rightharpoonup> string) ''VERIFY_SSL'' = None
   \<and> verify_ssl example_client
   \<and> init [''VERIFY_SSL'' \<mapsto> ''false''] None (Some ''a@b.com'') (Some ''secret'') False =
        Inr (example_client\<lparr>verify_ssl := False\<rparr>)
   \<and> init [''VERIFY_SSL'' \<mapsto> ''TRUE''] None (Some ''a@b.com'') (Some ''secret'') False =
        Inr example_client"
proof -
  have a: "init Map.empty None (Some ''a@b.com'') (Some ''secret'') False = Inr example_client"
    by (simp add: init_def or_else_def getenv_def example_client_def py_lower_def)
  have b: "init [''VERIFY_SSL'' \<mapsto> ''false''] None (Some ''a@b.com'') (Some ''secret'') False =
        Inr (example_client\<lparr>verify_ssl := False\<rparr>)"
    by (simp add: init_def or_else_def getenv_def example_client_def py_lower_def)
  have c: "init [''VERIFY_SSL'' \<mapsto> ''TRUE''] None (Some ''a@b.com'') (Some ''secret'') False =
        Inr example_client"
    by (simp add: init_def or_else_def getenv_def example_client_def py_lower_def)
  from verify_ssl_false_discarded [OF a] have "verify_ssl example_client"
    by simp
  with a b c show ?thesis by simp
qed

section \<open>Domain methods on a body without their field\<close>

text \<open>
  C10. Let the token be acquired, and let the dispatch of a domain method end in a response
  with a success status whose body is a JSON object without the field the method reads.
  Then the method raises nothing: \<open>list_projects\<close>, \<open>list_sprints\<close>,
  \<open>list_work_items\<close> and \<open>get_backlog\<close> return the empty list, and \<open>get_project\<close>,
  \<open>get_sprint\<close>, \<open>create_sprint\<close>, \<open>activate_sprint\<close>, \<open>close_sprint\<close>,
  \<open>get_work_item\<close>, \<open>create_work_item\<close> and \<open>update_work_item\<close> return the empty
  object.
\<close>

theorem missing_field_defaults:
  assumes "fst (get_token rt c w) = Inr token"
  shows "(lacks_field (snd (snd (list_projects rt c w))) ''projects'' \<longrightarrow>
            fst (list_projects rt c w) = Inr (JArr []))
       \<and> (lacks_field (snd (snd (list_sprints rt c w project_id))) ''sprints'' \<longrightarrow>
            fst (list_sprints rt c w project_id) = Inr (JArr []))
       \<and> (lacks_field (snd (snd (list_work_items rt c w project_id))) ''work_items'' \<longrightarrow>
            fst (list_work_items rt c w project_id) = Inr (JArr []))
       \<and> (lacks_field (snd (snd (get_backlog rt c w project_id))) ''work_items'' \<longrightarrow>
            fst (get_backlog rt c w project_id) = Inr (JArr []))
       \<and> (lacks_field (snd (snd (get_project rt c w project_id))) ''project'' \<longrightarrow>
            fst (get_project rt c w project_id) = Inr (JObj []))
       \<and> (lacks_field (snd (snd (get_sprint rt c w sprint_id))) ''sprint'' \<longrightarrow>
            fst (get_sprint rt c w sprint_id) = Inr (JObj []))
       \<and> (lacks_field (snd (snd (create_sprint rt c w project_id name goal start_date end_date
                                     velocity_target))) ''sprint'' \<longrightarrow>
            fst (create_sprint rt c w project_id name goal start_date end_date velocity_target)
              = Inr (JObj []))
       \<and> (lacks_field (snd (snd (activate_sprint rt c w sprint_id))) ''sprint'' \<longrightarrow>
            fst (activate_sprint rt c w sprint_id) = Inr (JObj []))
       \<and> (lacks_field (snd (snd (close_sprint rt c w sprint_id))) ''sprint'' \<longrightarrow>
            fst (close_sprint rt c w sprint_id) = Inr (JObj []))
       \<and> (lacks_field (snd (snd (get_work_item rt c w work_item_id))) ''work_item'' \<longrightarrow>
            fst (get_work_item rt c w work_item_id) = Inr (JObj []))
       \<and> (lacks_field (snd (snd (create_work_item rt c w project_id title description item_type
                                     priority estimate_points assignee_id in_sprint parent_id)))
            ''work_item'' \<longrightarrow>
            fst (create_work_item rt c w project_id title description item_type priority
                   estimate_points assignee_id in_sprint parent_id) = Inr (JObj []))
       \<and> (lacks_field (snd (snd (update_work_item rt c w work_item_id kwargs))) ''work_item'' \<longrightarrow>
            fst (update_work_item rt c w work_item_id kwargs) = Inr (JObj []))"
proof -
  note d = returning_default [OF assms] returning_world
  have "lacks_field (snd (snd (list_projects rt c w))) ''projects'' \<longrightarrow>
            fst (list_projects rt c w) = Inr (JArr [])"
    by (simp add: list_projects_def d)
  moreover have "lacks_field (snd (snd (list_sprints rt c w project_id))) ''sprints'' \<longrightarrow>
            fst (list_sprints rt c w project_id) = Inr (JArr [])"
    by (simp add: list_sprints_def d)
  moreover have "lacks_field (snd (snd (list_work_items rt c w project_id))) ''work_items'' \<longrightarrow>
            fst (list_work_items rt c w project_id) = Inr (JArr [])"
    by (simp add: list_work_items_def d)
  moreover have "lacks_field (snd (snd (get_backlog rt c w project_id))) ''work_items'' \<longrightarrow>
            fst (get_backlog rt c w project_id) = Inr (JArr [])"
    by (simp add: get_backlog_def d)
  moreover have "lacks_field (snd (snd (get_project rt c w project_id))) ''project'' \<longrightarrow>
            fst (get_project rt c w project_id) = Inr (JObj [])"
    by (simp add: get_project_def d)
  moreover have "lacks_field (snd (snd (get_sprint rt c w sprint_id))) ''sprint'' \<longrightarrow>
            fst (get_sprint rt c w sprint_id) = Inr (JObj [])"
    by (simp add: get_sprint_def d)
  moreover have "lacks_field (snd (snd (create_sprint rt c w project_id name goal start_date end_date
                                     velocity_target))) ''sprint'' \<longrightarrow>
            fst (create_sprint rt c w project_id name goal start_date end_date velocity_target)
              = Inr (JObj [])"
    by (simp add: create_sprint_def d)
  moreover have "lacks_field (snd (snd (activate_sprint rt c w sprint_id))) ''sprint'' \<longrightarrow>
            fst (activate_sprint rt c w sprint_id) = Inr (JObj [])"
    by (simp add: activate_sprint_def d)
  moreover have "lacks_field (snd (snd (close_sprint rt c w sprint_id))) ''sprint'' \<longrightarrow>
            fst (close_sprint rt c w sprint_id) = Inr (JObj [])"
    by (simp add: close_sprint_def d)
  moreover have "lacks_field (snd (snd (get_work_item rt c w work_item_id))) ''work_item'' \<longrightarrow>
            fst (get_work_item rt c w work_item_id) = Inr (JObj [])"
    by (simp add: get_work_item_def d)
  moreover have "lacks_field (snd (snd (create_work_item rt c w project_id title description item_type
                                     priority estimate_points assignee_id in_sprint parent_id)))
            ''work_item'' \<longrightarrow>
            fst (create_work_item rt c w project_id title description item_type priority
                   estimate_points assignee_id in_sprint parent_id) = Inr (JObj [])"
    by (simp add: create_work_item_def d)
  moreover have "lacks_field (snd (snd (update_work_item rt c w work_item_id kwargs))) ''work_item'' \<longrightarrow>
            fst (update_work_item rt c w work_item_id kwargs) = Inr (JObj [])"
    by (simp add: update_work_item_def d)
  ultimately show ?thesis by blast
qed

theorem missing_field_defaults_witness:
  "fst (get_token bare_runtime held_client start) = Inr (JStr ''T0'')
   \<and> lacks_field (snd (snd (list_projects bare_runtime held_client start))) ''projects''
   \<and> list_projects bare_runtime held_client start =
       (Inr (JArr []), held_client,
        \<lparr>now = 1,
         log = [\<lparr>ex_request = tracker_request bare_runtime held_client (JStr ''T0'')
                                 ''GET'' ''projects/'' None None,
                 ex_result = Response empty_object, ex_done = 1\<rparr>]\<rparr>)
   \<and> lacks_field (snd (snd (get_project bare_runtime held_client start 5))) ''project''
   \<and> get_project bare_runtime held_client start 5 =
       (Inr (JObj []), held_client,
        \<lparr>now = 1,
         log = [\<lparr>ex_request = tracker_request bare_runtime held_client (JStr ''T0'')
                                 ''GET'' ''projects/5/'' None None,
                 ex_result = Response empty_object, ex_done = 1\<rparr>]\<rparr>)"
proof -
  have g: "fst (get_token bare_runtime held_client start) = Inr (JStr ''T0'')"
    by (simp add: service_defs client_defs)
  have w1: "snd (list_projects bare_runtime held_client start) =
       (held_client,
        \<lparr>now = 1,
         log = [\<lparr>ex_request = tracker_request bare_runtime held_client (JStr ''T0'')
                                 ''GET'' ''projects/'' None None,
                 ex_result = Response empty_object, ex_done = 1\<rparr>]\<rparr>)"
    by (simp add: service_defs client_defs method_defs)
  have w2: "snd (get_project bare_runtime held_client start 5) =
       (held_client,
        \<lparr>now = 1,
         log = [\<lparr>ex_request = tracker_request bare_runtime held_client (JStr ''T0'')
                                 ''GET'' ''projects/5/'' None None,
                 ex_result = Response empty_object, ex_done = 1\<rparr>]\<rparr>)"
    by (simp add: service_defs client_defs method_defs)
  have l1: "lacks_field (snd (snd (list_projects bare_runtime held_client start))) ''projects''"
    by (simp add: w1 lacks_field_def empty_object_def is_success_def)
  have l2: "lacks_field (snd (snd (get_project bare_runtime held_client start 5))) ''project''"
    by (simp add: w2 lacks_field_def empty_object_def is_success_def)
  from missing_field_defaults [OF g, where project_id = 5]
  have "fst (list_projects bare_runtime held_client start) = Inr (JArr [])"
    and "fst (get_project bare_runtime held_client start 5) = Inr (JObj [])"
    using l1 l2 by blast+
  with g w1 w2 l1 l2 show ?thesis
    by (simp add: prod_eq_iff)
qed

end
